theory Spec2Isabelle
  imports Complex_Main
begin

section \<open>A model of the 3D map exporter\<close>

text \<open>
  The exporter computes with Python floats. Two parts of it are modelled differently.
  The tile indices come from a truncation, so what they are depends on the last bit of
  the float that is truncated: tile math is modelled with the rounding of every float
  operation. The cropper, the projection and the mesh are modelled over the real numbers
  that the floats approximate; what is proved of them (bounds of integers after clamping,
  order and indices of the emitted lines) does not depend on rounding.
  The integers that the code obtains with \<^verbatim>\<open>int(...)\<close> are HOL integers.
  Python exceptions are values of \<open>py_error\<close>, returned as \<open>Inl\<close>.
\<close>

datatype py_error = ZeroDivisionError | ValueError | KeyError | TypeError

type_synonym bbox = "real \<times> real \<times> real \<times> real"

text \<open>
  \<^verbatim>\<open>int\<close> of a float truncates towards zero; \<open>radians\<close> is the conversion that the
  local projection uses, over the reals.
\<close>

definition py_int :: "real \<Rightarrow> int" where
  "py_int v = (if 0 \<le> v then \<lfloor>v\<rfloor> else \<lceil>v\<rceil>)"

definition radians :: "real \<Rightarrow> real" where
  "radians d = d * pi / 180"

subsection \<open>Float arithmetic\<close>

text \<open>
  A float is the real number it denotes. \<open>fl\<close> rounds a real to the nearest number with
  a significand of 53 bits, ties to the even significand: the result of every IEEE 754
  binary64 operation is \<open>fl\<close> of the exact result. The exponent is not bounded: overflow
  and subnormal numbers are not modelled, and no operation of tile math on degrees and
  zoom levels of a map reaches them.
\<close>

definition round_half_even :: "real \<Rightarrow> int" where
  "round_half_even q =
     (let f = \<lfloor>q\<rfloor>; d = q - of_int f
      in if d < 1 / 2 then f
         else if 1 / 2 < d then f + 1
         else if even f then f else f + 1)"

definition binade :: "real \<Rightarrow> int" where
  "binade v = \<lfloor>log 2 \<bar>v\<bar>\<rfloor>"

definition fl :: "real \<Rightarrow> real" where
  "fl v =
     (if v = 0 then 0
      else let u = 2 powi (binade v - 52)
           in of_int (round_half_even (v / u)) * u)"

text \<open>
  \<^verbatim>\<open>math.pi\<close> is the float nearest to \<open>\<pi>\<close>. \<^verbatim>\<open>math.radians\<close> and
  \<^verbatim>\<open>math.degrees\<close> multiply by the float constants \<open>fl (math_pi / 180)\<close> and
  \<open>fl (180 / math_pi)\<close>. The functions \<^verbatim>\<open>tan\<close>, \<^verbatim>\<open>cos\<close>, \<^verbatim>\<open>log\<close>, \<^verbatim>\<open>sinh\<close> and
  \<^verbatim>\<open>atan\<close> are those of the mathematical library of the platform, whose rounding no
  standard fixes: the model takes them as a parameter, from floats to floats.
\<close>

record libm =
  m_tan :: "real \<Rightarrow> real"
  m_cos :: "real \<Rightarrow> real"
  m_log :: "real \<Rightarrow> real"
  m_sinh :: "real \<Rightarrow> real"
  m_atan :: "real \<Rightarrow> real"

definition math_pi :: real where
  "math_pi = 884279719003555 / 281474976710656"

definition math_radians :: "real \<Rightarrow> real" where
  "math_radians x = fl (x * fl (math_pi / 180))"

definition math_degrees :: "real \<Rightarrow> real" where
  "math_degrees x = fl (x * fl (180 / math_pi))"

subsection \<open>Tile math\<close>

text \<open>
  Each float operation of the source is one \<open>fl\<close>, in the order in which Python
  evaluates it. An integer operand is converted to a float first; \<open>2 ** zoom\<close> and the
  tile indices of a map are floats exactly. The division of two integers in
  \<open>tile2long\<close> is Python's true division, the float nearest to the quotient.
  \<^verbatim>\<open>1 / math.cos(lat_rad)\<close> raises on a zero cosine and \<^verbatim>\<open>math.log\<close> raises a domain
  error on an argument that is not positive.
\<close>

definition long2tile :: "real \<Rightarrow> nat \<Rightarrow> int" where
  "long2tile lon zoom = py_int (fl (fl (fl (lon + 180) / 360) * 2 ^ zoom))"

definition lat2tile :: "libm \<Rightarrow> real \<Rightarrow> nat \<Rightarrow> py_error + int" where
  "lat2tile M lat zoom =
     (let lat_rad = math_radians lat in
      if m_cos M lat_rad = 0 then Inl ZeroDivisionError
      else
        let s = fl (m_tan M lat_rad + fl (1 / m_cos M lat_rad)) in
        if s \<le> 0 then Inl ValueError
        else Inr (py_int (fl (fl (fl (1 - fl (m_log M s / math_pi)) / 2) * 2 ^ zoom))))"

definition tile2long :: "int \<Rightarrow> nat \<Rightarrow> real" where
  "tile2long x zoom = fl (fl (fl (real_of_int x / 2 ^ zoom) * 360) - 180)"

definition tile2lat :: "libm \<Rightarrow> int \<Rightarrow> nat \<Rightarrow> real" where
  "tile2lat M y zoom =
     (let n = fl (math_pi - fl (fl (fl (2 * math_pi) * fl (real_of_int y)) / 2 ^ zoom))
      in math_degrees (m_atan M (m_sinh M n)))"

definition get_tiles_for_bbox ::
  "libm \<Rightarrow> bbox \<Rightarrow> nat \<Rightarrow> py_error + (int \<times> int \<times> int \<times> int)" where
  "get_tiles_for_bbox M b zoom =
     (case b of (west, south, east, north) \<Rightarrow>
        let min_x = long2tile west zoom;
            max_x = long2tile east zoom
        in case lat2tile M north zoom of
             Inl err \<Rightarrow> Inl err
           | Inr min_y \<Rightarrow>
               (case lat2tile M south zoom of
                  Inl err \<Rightarrow> Inl err
                | Inr max_y \<Rightarrow> Inr (min_x, min_y, max_x, max_y)))"

text \<open>
  The geographic frame of the tile grid, as \<^verbatim>\<open>get_perfect_map_texture\<close> computes it
  from the covering tiles: \<open>(tiles_west, tiles_south, tiles_east, tiles_north)\<close>.
\<close>

definition tiles_bbox :: "libm \<Rightarrow> bbox \<Rightarrow> nat \<Rightarrow> py_error + bbox" where
  "tiles_bbox M user_bbox zoom =
     (case get_tiles_for_bbox M user_bbox zoom of
        Inl err \<Rightarrow> Inl err
      | Inr (min_x, min_y, max_x, max_y) \<Rightarrow>
          let tiles_west = tile2long min_x zoom;
              tiles_east = tile2long (max_x + 1) zoom;
              tiles_north = tile2lat M min_y zoom;
              tiles_south = tile2lat M (max_y + 1) zoom
          in Inr (tiles_west, tiles_south, tiles_east, tiles_north))"

text \<open>The frame contains the rectangle: the four inequalities of the mosaic coverage.\<close>

definition covers :: "libm \<Rightarrow> bbox \<Rightarrow> nat \<Rightarrow> bool" where
  "covers M user_bbox zoom =
     (case user_bbox of (west, south, east, north) \<Rightarrow>
        (case tiles_bbox M user_bbox zoom of
           Inl err \<Rightarrow> False
         | Inr (tiles_west, tiles_south, tiles_east, tiles_north) \<Rightarrow>
             tiles_west \<le> west \<and> tiles_south \<le> south \<and> east \<le> tiles_east \<and> north \<le> tiles_north))"

subsection \<open>Exact cropper\<close>

text \<open>
  \<^verbatim>\<open>crop_image_to_exact_bbox\<close> up to the crop box it hands to the image library,
  \<open>(crop_left, crop_top, crop_right, crop_bottom)\<close>; the image enters through its pixel
  width and height. A float division by zero raises.
\<close>

definition crop_image_to_exact_bbox ::
  "int \<times> int \<Rightarrow> bbox \<Rightarrow> bbox \<Rightarrow> py_error + (int \<times> int \<times> int \<times> int)" where
  "crop_image_to_exact_bbox stitched_image user_bbox tiles_bb =
     (case stitched_image of (image_width, image_height) \<Rightarrow>
      case user_bbox of (user_west, user_south, user_east, user_north) \<Rightarrow>
      case tiles_bb of (tiles_west, tiles_south, tiles_east, tiles_north) \<Rightarrow>
        if tiles_east - tiles_west = 0 then Inl ZeroDivisionError
        else
          let crop_left = py_int ((user_west - tiles_west) / (tiles_east - tiles_west) * real_of_int image_width);
              crop_right = py_int ((user_east - tiles_west) / (tiles_east - tiles_west) * real_of_int image_width)
          in if tiles_north - tiles_south = 0 then Inl ZeroDivisionError
             else
               let crop_top = py_int ((tiles_north - user_north) / (tiles_north - tiles_south) * real_of_int image_height);
                   crop_bottom = py_int ((tiles_north - user_south) / (tiles_north - tiles_south) * real_of_int image_height);
                   crop_left = max 0 (min crop_left (image_width - 1));
                   crop_right = max (crop_left + 1) (min crop_right image_width);
                   crop_top = max 0 (min crop_top (image_height - 1));
                   crop_bottom = max (crop_top + 1) (min crop_bottom image_height)
               in Inr (crop_left, crop_top, crop_right, crop_bottom))"

subsection \<open>Local projection and ground plane\<close>

definition lat_lon_to_meters :: "real \<Rightarrow> real \<Rightarrow> real \<Rightarrow> real \<Rightarrow> real \<times> real" where
  "lat_lon_to_meters lat lon origin_lat origin_lon =
     (let R = 6378137;
          lat_rad = radians lat;
          lon_rad = radians lon;
          origin_lat_rad = radians origin_lat;
          origin_lon_rad = radians origin_lon;
          x = R * (lon_rad - origin_lon_rad) * cos origin_lat_rad;
          y = R * (lat_rad - origin_lat_rad)
      in (x, y))"

text \<open>
  The lines of the mesh document, one constructor for each kind of line the exporter
  writes. A vertex line carries the coordinates that the code renders with three
  decimals; a face line carries its corners, each a 1-based vertex index and, on the
  ground plane, a 1-based texture index (\<^verbatim>\<open>f 1/1 2/2 3/3\<close>).
\<close>

datatype obj_line =
    Comment string
  | CommentBbox bbox
  | CommentOrigin real real
  | Blank
  | MtlLib string
  | Vertex real real real
  | TexCoord real real
  | UseMtl string
  | Group string
  | GroupBuilding nat
  | Face "(nat \<times> nat option) list"

definition create_perfect_ground_plane :: "bbox \<Rightarrow> string \<Rightarrow> obj_line list \<times> nat" where
  "create_perfect_ground_plane b map_image_path =
     (case b of (west, south, east, north) \<Rightarrow>
        let origin_lat = (south + north) / 2;
            origin_lon = (west + east) / 2;
            (sw_x, sw_y) = lat_lon_to_meters south west origin_lat origin_lon;
            (se_x, se_y) = lat_lon_to_meters south east origin_lat origin_lon;
            (nw_x, nw_y) = lat_lon_to_meters north west origin_lat origin_lon;
            (ne_x, ne_y) = lat_lon_to_meters north east origin_lat origin_lon;
            obj_lines =
              [Comment ''Perfect Aligned Ground Plane'',
               CommentBbox b,
               CommentOrigin origin_lat origin_lon,
               Blank,
               Comment ''Ground vertices'',
               Vertex sw_x sw_y (- 0.1),
               Vertex se_x se_y (- 0.1),
               Vertex ne_x ne_y (- 0.1),
               Vertex nw_x nw_y (- 0.1),
               Blank,
               Comment ''UV coordinates'',
               TexCoord 0 0,
               TexCoord 1 0,
               TexCoord 1 1,
               TexCoord 0 1,
               Blank,
               UseMtl ''ground_texture'',
               Group ''ground_plane'',
               Comment ''Two triangles forming the ground rectangle'',
               Face [(1, Some 1), (2, Some 2), (3, Some 3)],
               Face [(1, Some 1), (3, Some 3), (4, Some 4)],
               Blank]
        in (obj_lines, 4))"

text \<open>Reading a document back: its vertex, texture and face lines, in order.\<close>

fun vertices_of :: "obj_line list \<Rightarrow> (real \<times> real \<times> real) list" where
  "vertices_of [] = []"
| "vertices_of (Vertex x y z # ls) = (x, y, z) # vertices_of ls"
| "vertices_of (l # ls) = vertices_of ls"

fun texcoords_of :: "obj_line list \<Rightarrow> (real \<times> real) list" where
  "texcoords_of [] = []"
| "texcoords_of (TexCoord u v # ls) = (u, v) # texcoords_of ls"
| "texcoords_of (l # ls) = texcoords_of ls"

fun faces_of :: "obj_line list \<Rightarrow> (nat \<times> nat option) list list" where
  "faces_of [] = []"
| "faces_of (Face cs # ls) = cs # faces_of ls"
| "faces_of (l # ls) = faces_of ls"

text \<open>
  Every face corner names a vertex that an earlier line of the document has defined:
  \<open>k\<close> counts the vertex lines read so far.
\<close>

fun indices_valid :: "nat \<Rightarrow> obj_line list \<Rightarrow> bool" where
  "indices_valid k [] = True"
| "indices_valid k (Vertex x y z # ls) = indices_valid (Suc k) ls"
| "indices_valid k (Face cs # ls) = (list_all (\<lambda>c. 1 \<le> fst c \<and> fst c \<le> k) cs \<and> indices_valid k ls)"
| "indices_valid k (l # ls) = indices_valid k ls"

subsection \<open>Footprint processor\<close>

text \<open>
  A value of the decoded JSON where the code expects a number; a geometry node is a
  dictionary from keys to such values, a footprint element carries its tag dictionary
  (empty when the key \<^verbatim>\<open>tags\<close> is absent) and its geometry when the key is present.
\<close>

datatype jval = JNum real | JStr string | JNull

type_synonym node = "string \<rightharpoonup> jval"

record element =
  el_tags :: "string \<rightharpoonup> string"
  el_geometry :: "node list option"

type_synonym ring = "(real \<times> real) list"

text \<open>
  The geometry library and the two parsing builtins are not code of the exporter; the
  model takes them as a parameter. \<open>None\<close> stands for a raised exception. A simplified
  geometry is a polygon with its exterior ring (closed: last point equal to the first) or
  a geometry of another type.
\<close>

datatype simplified_geom = SimplifiedPolygon ring | SimplifiedOther

record 'p library =
  lib_Polygon :: "ring \<Rightarrow> 'p option"
  lib_is_valid :: "'p \<Rightarrow> bool"
  lib_area :: "'p \<Rightarrow> real"
  lib_simplify :: "'p \<Rightarrow> real \<Rightarrow> simplified_geom option"
  lib_float :: "string \<Rightarrow> real option"
  lib_int :: "string \<Rightarrow> int option"

datatype caught = Raised

type_synonym builder = "obj_line list \<times> nat \<times> nat"

definition simplification_tolerance :: "string \<Rightarrow> real" where
  "simplification_tolerance quality =
     (if quality = ''low'' then 2.0
      else if quality = ''medium'' then 1.0
      else if quality = ''high'' then 0.3
      else 1.0)"

definition min_area_threshold :: "string \<Rightarrow> real" where
  "min_area_threshold quality =
     (if quality = ''low'' then 25.0
      else if quality = ''medium'' then 10.0
      else if quality = ''high'' then 5.0
      else 10.0)"

text \<open>A tag value is truthy when it is present and not the empty string.\<close>

definition truthy :: "string option \<Rightarrow> bool" where
  "truthy v = (case v of None \<Rightarrow> False | Some s \<Rightarrow> s \<noteq> [])"

text \<open>The list comprehension over the geometry: a missing key raises.\<close>

definition node_coord :: "node \<Rightarrow> py_error + (jval \<times> jval)" where
  "node_coord nd =
     (case nd ''lon'' of
        None \<Rightarrow> Inl KeyError
      | Some lo \<Rightarrow> (case nd ''lat'' of None \<Rightarrow> Inl KeyError | Some la \<Rightarrow> Inr (lo, la)))"

fun node_coords :: "node list \<Rightarrow> py_error + (jval \<times> jval) list" where
  "node_coords [] = Inr []"
| "node_coords (nd # nds) =
     (case node_coord nd of
        Inl err \<Rightarrow> Inl err
      | Inr c \<Rightarrow> (case node_coords nds of Inl err \<Rightarrow> Inl err | Inr cs \<Rightarrow> Inr (c # cs)))"

text \<open>The projection loop: \<^verbatim>\<open>math.radians\<close> raises on a value that is not a number.\<close>

fun project_coords :: "(jval \<times> jval) list \<Rightarrow> real \<Rightarrow> real \<Rightarrow> py_error + ring" where
  "project_coords [] origin_lat origin_lon = Inr []"
| "project_coords ((JNum lon, JNum lat) # cs) origin_lat origin_lon =
     (case project_coords cs origin_lat origin_lon of
        Inl err \<Rightarrow> Inl err
      | Inr local_coords \<Rightarrow> Inr (lat_lon_to_meters lat lon origin_lat origin_lon # local_coords))"
| "project_coords (c # cs) origin_lat origin_lon = Inl TypeError"

text \<open>
  The height of a building from its tags: \<^verbatim>\<open>replace('m', '')\<close> and
  \<^verbatim>\<open>replace(' ', '')\<close> delete every such character, and a failed parse is swallowed
  by the bare \<^verbatim>\<open>except\<close>.
\<close>

definition height_of_tags :: "'p library \<Rightarrow> (string \<rightharpoonup> string) \<Rightarrow> real \<Rightarrow> real" where
  "height_of_tags L tgs building_height =
     (case tgs ''building:height'' of
        Some s \<Rightarrow>
          (case lib_float L (filter (\<lambda>c. c \<noteq> CHR '' '') (filter (\<lambda>c. c \<noteq> CHR ''m'') s)) of
             Some v \<Rightarrow> max v 2.0
           | None \<Rightarrow> building_height)
      | None \<Rightarrow>
          (case tgs ''building:levels'' of
             Some s \<Rightarrow>
               (case lib_int L s of
                  Some levels \<Rightarrow> max (real_of_int levels * 3.5) 2.0
                | None \<Rightarrow> building_height)
           | None \<Rightarrow> building_height))"

text \<open>The vertex loop: a base and a top vertex for each point of the ring.\<close>

fun vertex_loop ::
  "ring \<Rightarrow> real \<Rightarrow> obj_line list \<Rightarrow> nat \<Rightarrow> nat list \<Rightarrow> nat list
     \<Rightarrow> obj_line list \<times> nat \<times> nat list \<times> nat list" where
  "vertex_loop [] height obj_lines vertex_count base_vertices top_vertices =
     (obj_lines, vertex_count, base_vertices, top_vertices)"
| "vertex_loop ((x, y) # cs) height obj_lines vertex_count base_vertices top_vertices =
     (let obj_lines = obj_lines @ [Vertex x y 0];
          base_vertices = base_vertices @ [vertex_count + 1];
          vertex_count = vertex_count + 1;
          obj_lines = obj_lines @ [Vertex x y height];
          top_vertices = top_vertices @ [vertex_count + 1];
          vertex_count = vertex_count + 1
      in vertex_loop cs height obj_lines vertex_count base_vertices top_vertices)"

definition wall_face :: "nat list \<Rightarrow> nat list \<Rightarrow> nat \<Rightarrow> nat \<Rightarrow> obj_line" where
  "wall_face base_vertices top_vertices n i =
     (let next_i = (i + 1) mod n;
          v1 = base_vertices ! i;
          v2 = base_vertices ! next_i;
          v3 = top_vertices ! next_i;
          v4 = top_vertices ! i
      in Face [(v1, None), (v2, None), (v3, None), (v4, None)])"

text \<open>
  The emission of one building. Both index lists have one entry for each point of the
  ring, so every \<open>!\<close> below reads inside its list.
\<close>

definition emit_building :: "ring \<Rightarrow> real \<Rightarrow> builder \<Rightarrow> builder" where
  "emit_building simplified_coords height st =
     (case st of (obj_lines, vertex_count, building_count) \<Rightarrow>
      case vertex_loop simplified_coords height obj_lines vertex_count [] [] of
        (obj_lines, vertex_count, base_vertices, top_vertices) \<Rightarrow>
          let building_count = building_count + 1;
              obj_lines = obj_lines @ [GroupBuilding building_count];
              obj_lines = obj_lines @ [UseMtl ''building_material''];
              n = length simplified_coords;
              obj_lines = obj_lines @ [Face (map (\<lambda>i. (base_vertices ! i, None)) (rev [0..<n]))];
              obj_lines = obj_lines @ [Face (map (\<lambda>i. (top_vertices ! i, None)) [0..<n])];
              obj_lines = obj_lines @ map (wall_face base_vertices top_vertices n) [0..<n]
          in (obj_lines, vertex_count, building_count))"

text \<open>
  Simplification, height and emission of a footprint that passed the polygon checks.
  \<open>Inl Raised\<close> is an exception inside the \<^verbatim>\<open>try\<close> block.
\<close>

definition simplify_and_emit ::
  "'p library \<Rightarrow> real \<Rightarrow> real \<Rightarrow> (string \<rightharpoonup> string) \<Rightarrow> ring \<Rightarrow> 'p \<Rightarrow> builder \<Rightarrow> caught + builder" where
  "simplify_and_emit L tolerance building_height tgs local_coords polygon st =
     (case lib_simplify L polygon tolerance of
        None \<Rightarrow> Inl Raised
      | Some simplified \<Rightarrow>
          let simplified_coords =
                (case simplified of
                   SimplifiedPolygon exterior \<Rightarrow> butlast exterior
                 | SimplifiedOther \<Rightarrow> local_coords)
          in if length simplified_coords < 3 then Inr st
             else
               let height = height_of_tags L tgs building_height
               in Inr (emit_building simplified_coords height st))"

text \<open>The body of the \<^verbatim>\<open>try\<close> block.\<close>

definition try_block ::
  "'p library \<Rightarrow> real \<Rightarrow> real \<Rightarrow> real \<Rightarrow> real \<Rightarrow> real \<Rightarrow> (string \<rightharpoonup> string)
     \<Rightarrow> (jval \<times> jval) list \<Rightarrow> builder \<Rightarrow> caught + builder" where
  "try_block L origin_lat origin_lon building_height tolerance threshold tgs coords st =
     (case project_coords coords origin_lat origin_lon of
        Inl err \<Rightarrow> Inl Raised
      | Inr local_coords \<Rightarrow>
          (case lib_Polygon L local_coords of
             None \<Rightarrow> Inl Raised
           | Some polygon \<Rightarrow>
               if \<not> lib_is_valid L polygon \<or> lib_area L polygon < threshold then Inr st
               else simplify_and_emit L tolerance building_height tgs local_coords polygon st))"

text \<open>
  The body of the loop over the elements. Every operation of the \<^verbatim>\<open>try\<close> block that
  can raise comes before the first line is appended, so \<^verbatim>\<open>except Exception: continue\<close>
  resumes with the builder as it was. \<open>Inl\<close> is an exception that leaves the function.
\<close>

definition process_element ::
  "'p library \<Rightarrow> real \<Rightarrow> real \<Rightarrow> real \<Rightarrow> real \<Rightarrow> real \<Rightarrow> builder \<Rightarrow> element
     \<Rightarrow> py_error + builder" where
  "process_element L origin_lat origin_lon building_height tolerance threshold st e =
     (if \<not> truthy (el_tags e ''building'') then Inr st
      else case el_geometry e of
        None \<Rightarrow> Inr st
      | Some nds \<Rightarrow>
          (case node_coords nds of
             Inl err \<Rightarrow> Inl err
           | Inr coords \<Rightarrow>
               if length coords < 4 then Inr st
               else
                 let coords = (if hd coords = last coords then butlast coords else coords)
                 in if length coords < 3 then Inr st
                    else
                      (case try_block L origin_lat origin_lon building_height tolerance threshold
                              (el_tags e) coords st of
                         Inl Raised \<Rightarrow> Inr st
                       | Inr st' \<Rightarrow> Inr st')))"

fun element_loop ::
  "'p library \<Rightarrow> real \<Rightarrow> real \<Rightarrow> real \<Rightarrow> real \<Rightarrow> real \<Rightarrow> builder \<Rightarrow> element list
     \<Rightarrow> py_error + builder" where
  "element_loop L origin_lat origin_lon building_height tolerance threshold st [] = Inr st"
| "element_loop L origin_lat origin_lon building_height tolerance threshold st (e # es) =
     (case process_element L origin_lat origin_lon building_height tolerance threshold st e of
        Inl err \<Rightarrow> Inl err
      | Inr st' \<Rightarrow> element_loop L origin_lat origin_lon building_height tolerance threshold st' es)"

definition create_building_geometry ::
  "'p library \<Rightarrow> element list \<Rightarrow> real \<Rightarrow> real \<Rightarrow> real \<Rightarrow> string \<Rightarrow> py_error + builder" where
  "create_building_geometry L elements origin_lat origin_lon building_height quality =
     element_loop L origin_lat origin_lon building_height
       (simplification_tolerance quality) (min_area_threshold quality)
       ([Comment ''Buildings positioned on perfect ground''], 4, 0) elements"

text \<open>
  The lines that \<^verbatim>\<open>export_obj\<close> writes to the mesh file: the part of the route
  between the texture and the packaging, which a request reaches once its rectangle has
  passed the validation and the texture has been made. The elements are the answer of the
  building query.
\<close>

definition export_obj_lines ::
  "'p library \<Rightarrow> bbox \<Rightarrow> element list \<Rightarrow> real \<Rightarrow> string \<Rightarrow> py_error + obj_line list" where
  "export_obj_lines L b elements building_height quality =
     (case b of (west, south, east, north) \<Rightarrow>
        let building_elements = filter (\<lambda>e. truthy (el_tags e ''building'')) elements;
            origin_lat = (south + north) / 2;
            origin_lon = (west + east) / 2;
            obj_lines =
              [Comment ''Perfect Aligned 3D Map'',
               CommentBbox b,
               CommentOrigin origin_lat origin_lon,
               Blank,
               MtlLib ''perfect_materials.mtl'',
               Blank];
            (ground_lines, ground_vertices) = create_perfect_ground_plane b ''perfect_map.png''
        in case create_building_geometry L building_elements origin_lat origin_lon
                  building_height quality of
             Inl err \<Rightarrow> Inl err
           | Inr (building_lines, total_vertices, building_count) \<Rightarrow>
               Inr (obj_lines @ ground_lines @ building_lines))"

subsection \<open>Notions used in the proofs\<close>

text \<open>The vertex lines of one building: for each point its base and its top vertex.\<close>

definition ring_vertices :: "ring \<Rightarrow> real \<Rightarrow> obj_line list" where
  "ring_vertices cs height = concat (map (\<lambda>(x, y). [Vertex x y 0, Vertex x y height]) cs)"

subsection \<open>An instance of the library parameter\<close>

text \<open>
  To run the model on concrete footprints: the parsers read plain decimal literals (an
  optional sign, digits, for a float an optional fraction), a polygon is its ring, valid
  when its points are distinct and enclose an area, the area is the shoelace formula, and
  simplification keeps every point and closes the ring.
\<close>

definition digit_of :: "char \<Rightarrow> nat option" where
  "digit_of c = map_of (zip ''0123456789'' [0, 1, 2, 3, 4, 5, 6, 7, 8, 9]) c"

fun digits_value :: "string \<Rightarrow> nat \<Rightarrow> nat option" where
  "digits_value [] acc = Some acc"
| "digits_value (c # cs) acc =
     (case digit_of c of None \<Rightarrow> None | Some d \<Rightarrow> digits_value cs (10 * acc + d))"

definition unsigned_int :: "string \<Rightarrow> nat option" where
  "unsigned_int s = (if s = [] then None else digits_value s 0)"

definition unsigned_float :: "string \<Rightarrow> real option" where
  "unsigned_float s =
     (let whole = takeWhile (\<lambda>c. c \<noteq> CHR ''.'') s;
          rest = dropWhile (\<lambda>c. c \<noteq> CHR ''.'') s
      in case unsigned_int whole of
           None \<Rightarrow> None
         | Some w \<Rightarrow>
             (if rest = [] then Some (real w)
              else case digits_value (tl rest) 0 of
                     None \<Rightarrow> None
                   | Some f \<Rightarrow> Some (real w + real f / 10 ^ length (tl rest))))"

definition decimal_int :: "string \<Rightarrow> int option" where
  "decimal_int s =
     (case s of
        [] \<Rightarrow> None
      | c # cs \<Rightarrow>
          if c = CHR ''-'' then map_option (\<lambda>n. - int n) (unsigned_int cs)
          else if c = CHR ''+'' then map_option int (unsigned_int cs)
          else map_option int (unsigned_int s))"

definition decimal_float :: "string \<Rightarrow> real option" where
  "decimal_float s =
     (case s of
        [] \<Rightarrow> None
      | c # cs \<Rightarrow>
          if c = CHR ''-'' then map_option uminus (unsigned_float cs)
          else if c = CHR ''+'' then unsigned_float cs
          else unsigned_float s)"

fun cross_sum :: "ring \<Rightarrow> real" where
  "cross_sum (p # q # ps) = (fst p * snd q - fst q * snd p) + cross_sum (q # ps)"
| "cross_sum ps = 0"

definition shoelace_area :: "ring \<Rightarrow> real" where
  "shoelace_area ps = (if ps = [] then 0 else \<bar>cross_sum (ps @ [hd ps])\<bar> / 2)"

definition plain_library :: "ring library" where
  "plain_library =
     \<lparr>lib_Polygon = (\<lambda>ps. if length ps < 3 then None else Some ps),
      lib_is_valid = (\<lambda>ps. distinct ps \<and> 0 < shoelace_area ps),
      lib_area = shoelace_area,
      lib_simplify = (\<lambda>ps tolerance. Some (SimplifiedPolygon (ps @ [hd ps]))),
      lib_float = decimal_float,
      lib_int = decimal_int\<rparr>"

text \<open>
  A sample job: a rectangle around the origin and one closed square footprint of about 55
  metres, tagged with the height \<open>9m\<close>; \<open>sample_ring\<close> is the footprint in local metres.
\<close>

definition sample_footprint :: element where
  "sample_footprint =
     \<lparr>el_tags = [''building'' \<mapsto> ''yes'', ''building:height'' \<mapsto> ''9m''],
      el_geometry = Some
        [[''lon'' \<mapsto> JNum 0, ''lat'' \<mapsto> JNum 0],
         [''lon'' \<mapsto> JNum 0.0005, ''lat'' \<mapsto> JNum 0],
         [''lon'' \<mapsto> JNum 0.0005, ''lat'' \<mapsto> JNum 0.0005],
         [''lon'' \<mapsto> JNum 0, ''lat'' \<mapsto> JNum 0.0005],
         [''lon'' \<mapsto> JNum 0, ''lat'' \<mapsto> JNum 0]]\<rparr>"

definition sample_side :: real where
  "sample_side = 6378137 * radians 0.0005"

definition sample_ring :: ring where
  "sample_ring = [(0, 0), (sample_side, 0), (sample_side, sample_side), (0, sample_side)]"

definition sample_bbox :: bbox where
  "sample_bbox = (- 0.001, - 0.001, 0.001, 0.001)"

definition sample_lines :: "obj_line list" where
  "sample_lines =
     [Comment ''Buildings positioned on perfect ground'',
      Vertex 0 0 0, Vertex 0 0 9,
      Vertex sample_side 0 0, Vertex sample_side 0 9,
      Vertex sample_side sample_side 0, Vertex sample_side sample_side 9,
      Vertex 0 sample_side 0, Vertex 0 sample_side 9,
      GroupBuilding 1, UseMtl ''building_material'',
      Face [(11, None), (9, None), (7, None), (5, None)],
      Face [(6, None), (8, None), (10, None), (12, None)],
      Face [(5, None), (7, None), (8, None), (6, None)],
      Face [(7, None), (9, None), (10, None), (8, None)],
      Face [(9, None), (11, None), (12, None), (10, None)],
      Face [(11, None), (5, None), (6, None), (12, None)]]"

text \<open>
  More sample footprints on the same grid: a ring of three nodes, three points on a line,
  a closed triangle, a footprint with a node that lacks its latitude, and a footprint
  with a latitude that is not a number.
\<close>

definition short_footprint :: element where
  "short_footprint =
     \<lparr>el_tags = [''building'' \<mapsto> ''yes''],
      el_geometry = Some
        [[''lon'' \<mapsto> JNum 0, ''lat'' \<mapsto> JNum 0],
         [''lon'' \<mapsto> JNum 0.0005, ''lat'' \<mapsto> JNum 0],
         [''lon'' \<mapsto> JNum 0, ''lat'' \<mapsto> JNum 0]]\<rparr>"

definition flat_footprint :: element where
  "flat_footprint =
     \<lparr>el_tags = [''building'' \<mapsto> ''yes''],
      el_geometry = Some
        [[''lon'' \<mapsto> JNum 0, ''lat'' \<mapsto> JNum 0],
         [''lon'' \<mapsto> JNum 0.0005, ''lat'' \<mapsto> JNum 0],
         [''lon'' \<mapsto> JNum 0.001, ''lat'' \<mapsto> JNum 0],
         [''lon'' \<mapsto> JNum 0, ''lat'' \<mapsto> JNum 0]]\<rparr>"

definition triangle_footprint :: element where
  "triangle_footprint =
     \<lparr>el_tags = [''building'' \<mapsto> ''yes''],
      el_geometry = Some
        [[''lon'' \<mapsto> JNum 0, ''lat'' \<mapsto> JNum 0],
         [''lon'' \<mapsto> JNum 0.0005, ''lat'' \<mapsto> JNum 0],
         [''lon'' \<mapsto> JNum 0.0005, ''lat'' \<mapsto> JNum 0.0005],
         [''lon'' \<mapsto> JNum 0, ''lat'' \<mapsto> JNum 0]]\<rparr>"

definition malformed_footprint :: element where
  "malformed_footprint =
     \<lparr>el_tags = [''building'' \<mapsto> ''yes''],
      el_geometry = Some
        [[''lon'' \<mapsto> JNum 0, ''lat'' \<mapsto> JNum 0],
         [''lon'' \<mapsto> JNum 0.0005],
         [''lon'' \<mapsto> JNum 0.0005, ''lat'' \<mapsto> JNum 0.0005],
         [''lon'' \<mapsto> JNum 0, ''lat'' \<mapsto> JNum 0.0005],
         [''lon'' \<mapsto> JNum 0, ''lat'' \<mapsto> JNum 0]]\<rparr>"

definition unprojectable_footprint :: element where
  "unprojectable_footprint =
     \<lparr>el_tags = [''building'' \<mapsto> ''yes''],
      el_geometry = Some
        [[''lon'' \<mapsto> JNum 0, ''lat'' \<mapsto> JNum 0],
         [''lon'' \<mapsto> JNum 0.0005, ''lat'' \<mapsto> JNull],
         [''lon'' \<mapsto> JNum 0.0005, ''lat'' \<mapsto> JNum 0.0005],
         [''lon'' \<mapsto> JNum 0, ''lat'' \<mapsto> JNum 0.0005],
         [''lon'' \<mapsto> JNum 0, ''lat'' \<mapsto> JNum 0]]\<rparr>"

text \<open>
  A footprint of three nodes, one of which lacks its latitude.
\<close>

definition keyless_footprint :: element where
  "keyless_footprint =
     \<lparr>el_tags = [''building'' \<mapsto> ''yes''],
      el_geometry = Some
        [[''lon'' \<mapsto> JNum 0, ''lat'' \<mapsto> JNum 0],
         [''lon'' \<mapsto> JNum 0.0005],
         [''lon'' \<mapsto> JNum 0, ''lat'' \<mapsto> JNum 0]]\<rparr>"

text \<open>
  The values that the mathematical library of glibc on x86-64 returns at the five
  arguments met when tile \<open>y = 1\<close> of zoom 2 is converted to a latitude and back, as a
  table; elsewhere the table is arbitrary.
\<close>

definition corner_libm :: libm where
  "corner_libm =
     \<lparr>m_tan = (\<lambda>x. if x = 5228117978190687 / 4503599627370496
                     then 5182064439449633 / 2251799813685248 else 0),
      m_cos = (\<lambda>x. if x = 5228117978190687 / 4503599627370496
                     then 7179401012205529 / 18014398509481984 else 1),
      m_log = (\<lambda>x. if x = 169253626096795 / 35184372088832
                     then 7074237752028441 / 4503599627370496 else 0),
      m_sinh = (\<lambda>x. if x = 884279719003555 / 562949953421312
                      then 161939513732801 / 70368744177664 else 0),
      m_atan = (\<lambda>x. if x = 161939513732801 / 70368744177664
                      then 5228117978190687 / 4503599627370496 else 0)\<rparr>"

section \<open>Properties\<close>

subsection \<open>Evaluating the rounding\<close>

lemma binade_eq:
  assumes "2 powi e \<le> \<bar>v\<bar>" "\<bar>v\<bar> < 2 powi (e + 1)"
  shows "binade v = e"
proof -
  have p: "0 < \<bar>v\<bar>" using assms(1) by (smt (verit) zero_less_power_int)
  have "(2::real) powr (of_int e) = 2 powi e" by (simp add: powr_real_of_int')
  moreover have "(2::real) powr (of_int e + 1) = 2 powi (e + 1)"
    using powr_real_of_int'[of 2 "e + 1"] by simp
  ultimately show ?thesis
    unfolding binade_def using assms p by (simp add: floor_log_eq_powr_iff)
qed

lemma round_half_even_nearest:
  assumes "\<bar>q - of_int m\<bar> < 1 / 2"
  shows "round_half_even q = m"
proof -
  have "\<lfloor>q\<rfloor> = m \<or> \<lfloor>q\<rfloor> = m - 1" using assms by linarith
  then show ?thesis
  proof
    assume f: "\<lfloor>q\<rfloor> = m"
    then have "q - of_int m < 1 / 2" using assms by linarith
    then show ?thesis by (simp add: round_half_even_def f Let_def)
  next
    assume f: "\<lfloor>q\<rfloor> = m - 1"
    have "1 / 2 < q - of_int (m - 1)" using assms by (simp add: abs_if split: if_splits)
    then show ?thesis by (simp add: round_half_even_def f Let_def)
  qed
qed

lemma fl_nearest:
  assumes "2 powi (k + 52) \<le> \<bar>v\<bar>" "\<bar>v\<bar> < 2 powi (k + 53)"
    and "\<bar>v / 2 powi k - of_int m\<bar> < 1 / 2"
  shows "fl v = of_int m * 2 powi k"
proof -
  have b: "binade v = k + 52"
    by (rule binade_eq) (use assms in \<open>simp_all add: add.commute add.left_commute\<close>)
  have "v \<noteq> 0" using assms(1) by (smt (verit) zero_less_power_int abs_zero)
  then show ?thesis
    by (simp add: fl_def b Let_def round_half_even_nearest[OF assms(3)])
qed

lemma fl_exact:
  assumes "2 powi (k + 52) \<le> \<bar>v\<bar>" "\<bar>v\<bar> < 2 powi (k + 53)"
    and "v / 2 powi k = of_int m"
  shows "fl v = v"
proof -
  have "\<bar>v / 2 powi k - of_int m\<bar> < 1 / 2" using assms(3) by simp
  from fl_nearest[OF assms(1,2) this] have "fl v = of_int m * 2 powi k" .
  also have "\<dots> = v" using assms(3) by (simp add: field_simps)
  finally show ?thesis .
qed

lemma tiles_west_eq:
  "tiles_bbox M (west, south, east, north) zoom = Inr (tw, ts, te, tn) \<Longrightarrow>
     tw = tile2long (long2tile west zoom) zoom"
  by (auto simp add: tiles_bbox_def get_tiles_for_bbox_def Let_def split: sum.splits)

lemma not_covers_west:
  assumes "west < tile2long (long2tile west zoom) zoom"
  shows "\<not> covers M (west, south, east, north) zoom"
  using assms by (auto simp add: covers_def split: sum.splits dest!: tiles_west_eq)

subsection \<open>A longitude that rounds onto a tile edge\<close>

text \<open>
  The float \<open>13.403320312499998\<close> is \<open>7545398545612799 / 562949953421312\<close>; it lies one
  unit in the last place west of \<open>13.4033203125\<close>, the west edge of tile 35208 at zoom 16.
\<close>

lemma edge_add: "fl (7545398545612799 / 562949953421312 + 180) = 193.4033203125"
proof -
  have "fl (7545398545612799 / 562949953421312 + 180) = of_int 6804774385090560 * 2 powi (- 45)"
    by (rule fl_nearest) (simp_all add: power_int_minus)
  then show ?thesis by (simp add: power_int_minus)
qed

lemma edge_div: "fl (193.4033203125 / 360) = 0.5372314453125"
proof -
  have "fl (193.4033203125 / 360) = 193.4033203125 / 360"
    by (rule fl_exact[where k = "- 53" and m = 4838950673842176]) (simp_all add: power_int_minus)
  then show ?thesis by simp
qed

lemma edge_mul: "fl (0.5372314453125 * 2 ^ 16) = 35208"
proof -
  have "fl (0.5372314453125 * 2 ^ 16) = 0.5372314453125 * 2 ^ 16"
    by (rule fl_exact[where k = "- 37" and m = 4838950673842176]) (simp_all add: power_int_minus)
  then show ?thesis by simp
qed

lemma edge_long2tile: "long2tile (7545398545612799 / 562949953421312) 16 = 35208"
  unfolding long2tile_def edge_add edge_div edge_mul by (simp add: py_int_def)

lemma edge_tile2long: "tile2long 35208 16 = 13.4033203125"
proof -
  have 1: "fl (real_of_int 35208 / 2 ^ 16) = 0.5372314453125"
  proof -
    have "fl (real_of_int 35208 / 2 ^ 16) = real_of_int 35208 / 2 ^ 16"
      by (rule fl_exact[where k = "- 53" and m = 4838950673842176]) (simp_all add: power_int_minus)
    then show ?thesis by simp
  qed
  have 2: "fl (0.5372314453125 * 360) = 193.4033203125"
  proof -
    have "fl (0.5372314453125 * 360) = 0.5372314453125 * 360"
      by (rule fl_exact[where k = "- 45" and m = 6804774385090560]) (simp_all add: power_int_minus)
    then show ?thesis by simp
  qed
  have 3: "fl (193.4033203125 - 180) = 13.4033203125"
  proof -
    have "fl (193.4033203125 - 180) = 193.4033203125 - 180"
      by (rule fl_exact[where k = "- 49" and m = 7545398545612800]) (simp_all add: power_int_minus)
    then show ?thesis by simp
  qed
  show ?thesis unfolding tile2long_def 1 2 3 ..
qed

subsection \<open>A longitude west of the antimeridian\<close>

lemma west_add: "fl (- 181 + 180) = (- 1)"
proof -
  have "fl (- 181 + 180) = real_of_int (- 4503599627370496) * 2 powi (- 52)"
    by (rule fl_nearest) (simp_all add: power_int_minus)
  also have "\<dots> = (- 1)"
    by (simp add: power_int_minus)
  finally show ?thesis .
qed

lemma west_div: "fl ((- 1) / 360) = - (6405119470038039 / 2305843009213693952)"
proof -
  have "fl ((- 1) / 360) = real_of_int (- 6405119470038039) * 2 powi (- 61)"
    by (rule fl_nearest) (simp_all add: power_int_minus)
  also have "\<dots> = - (6405119470038039 / 2305843009213693952)"
    by (simp add: power_int_minus)
  finally show ?thesis .
qed

lemma west_mul: "fl ((- (6405119470038039 / 2305843009213693952)) * 2 ^ 16) = - (6405119470038039 / 35184372088832)"
proof -
  have "fl ((- (6405119470038039 / 2305843009213693952)) * 2 ^ 16) = real_of_int (- 6405119470038039) * 2 powi (- 45)"
    by (rule fl_nearest) (simp_all add: power_int_minus)
  also have "\<dots> = - (6405119470038039 / 35184372088832)"
    by (simp add: power_int_minus)
  finally show ?thesis .
qed

lemma west_back_div: "fl (real_of_int (- 182) / 2 ^ 16) = - (91 / 32768)"
proof -
  have "fl (real_of_int (- 182) / 2 ^ 16) = real_of_int (- 6403555720167424) * 2 powi (- 61)"
    by (rule fl_nearest) (simp_all add: power_int_minus)
  also have "\<dots> = - (91 / 32768)"
    by (simp add: power_int_minus)
  finally show ?thesis .
qed

lemma west_back_mul: "fl ((- (91 / 32768)) * 360) = - (4095 / 4096)"
proof -
  have "fl ((- (91 / 32768)) * 360) = real_of_int (- 9005000231485440) * 2 powi (- 53)"
    by (rule fl_nearest) (simp_all add: power_int_minus)
  also have "\<dots> = - (4095 / 4096)"
    by (simp add: power_int_minus)
  finally show ?thesis .
qed

lemma west_back_sub: "fl ((- (4095 / 4096)) - 180) = - (741375 / 4096)"
proof -
  have "fl ((- (4095 / 4096)) - 180) = real_of_int (- 6368362758144000) * 2 powi (- 45)"
    by (rule fl_nearest) (simp_all add: power_int_minus)
  also have "\<dots> = - (741375 / 4096)"
    by (simp add: power_int_minus)
  finally show ?thesis .
qed

lemma west_long2tile: "long2tile (- 181) 16 = - 182"
proof -
  have "py_int (- (6405119470038039 / 35184372088832)) = - 182"
    by (simp add: py_int_def ceiling_unique)
  then show ?thesis unfolding long2tile_def west_add west_div west_mul .
qed

lemma west_tile2long: "tile2long (- 182) 16 = - (741375 / 4096)"
  unfolding tile2long_def west_back_div west_back_mul west_back_sub ..

subsection \<open>The latitude of a tile edge\<close>

lemma corner_two_pi: "fl (2 * math_pi) = 884279719003555 / 140737488355328"
proof -
  have "fl (2 * math_pi) = real_of_int (7074237752028440) * 2 powi (- 50)"
    by (rule fl_nearest) (simp_all add: power_int_minus math_pi_def)
  also have "\<dots> = 884279719003555 / 140737488355328"
    by (simp add: power_int_minus)
  finally show ?thesis .
qed

lemma corner_y: "fl (real_of_int 1) = 1"
proof -
  have "fl (real_of_int 1) = real_of_int (4503599627370496) * 2 powi (- 52)"
    by (rule fl_nearest) (simp_all add: power_int_minus)
  also have "\<dots> = 1"
    by (simp add: power_int_minus)
  finally show ?thesis .
qed

lemma corner_mul: "fl ((884279719003555 / 140737488355328) * 1) = 884279719003555 / 140737488355328"
proof -
  have "fl ((884279719003555 / 140737488355328) * 1) = real_of_int (7074237752028440) * 2 powi (- 50)"
    by (rule fl_nearest) (simp_all add: power_int_minus)
  also have "\<dots> = 884279719003555 / 140737488355328"
    by (simp add: power_int_minus)
  finally show ?thesis .
qed

lemma corner_div: "fl ((884279719003555 / 140737488355328) / 2 ^ 2) = 884279719003555 / 562949953421312"
proof -
  have "fl ((884279719003555 / 140737488355328) / 2 ^ 2) = real_of_int (7074237752028440) * 2 powi (- 52)"
    by (rule fl_nearest) (simp_all add: power_int_minus)
  also have "\<dots> = 884279719003555 / 562949953421312"
    by (simp add: power_int_minus)
  finally show ?thesis .
qed

lemma corner_n: "fl (math_pi - 884279719003555 / 562949953421312) = 884279719003555 / 562949953421312"
proof -
  have "fl (math_pi - 884279719003555 / 562949953421312) = real_of_int (7074237752028440) * 2 powi (- 52)"
    by (rule fl_nearest) (simp_all add: power_int_minus math_pi_def)
  also have "\<dots> = 884279719003555 / 562949953421312"
    by (simp add: power_int_minus)
  finally show ?thesis .
qed

lemma rad_to_deg: "fl (180 / math_pi) = 1007958012753983 / 17592186044416"
proof -
  have "fl (180 / math_pi) = real_of_int (8063664102031864) * 2 powi (- 47)"
    by (rule fl_nearest) (simp_all add: power_int_minus math_pi_def)
  also have "\<dots> = 1007958012753983 / 17592186044416"
    by (simp add: power_int_minus)
  finally show ?thesis .
qed

lemma corner_deg: "fl ((5228117978190687 / 4503599627370496) * (1007958012753983 / 17592186044416)) = 4680454608543677 / 70368744177664"
proof -
  have "fl ((5228117978190687 / 4503599627370496) * (1007958012753983 / 17592186044416)) = real_of_int (4680454608543677) * 2 powi (- 46)"
    by (rule fl_nearest) (simp_all add: power_int_minus)
  also have "\<dots> = 4680454608543677 / 70368744177664"
    by (simp add: power_int_minus)
  finally show ?thesis .
qed

lemma deg_to_rad: "fl (math_pi / 180) = 5030569068109113 / 288230376151711744"
proof -
  have "fl (math_pi / 180) = real_of_int (5030569068109113) * 2 powi (- 58)"
    by (rule fl_nearest) (simp_all add: power_int_minus math_pi_def)
  also have "\<dots> = 5030569068109113 / 288230376151711744"
    by (simp add: power_int_minus)
  finally show ?thesis .
qed

lemma corner_lat_rad: "fl ((4680454608543677 / 70368744177664) * (5030569068109113 / 288230376151711744)) = 5228117978190687 / 4503599627370496"
proof -
  have "fl ((4680454608543677 / 70368744177664) * (5030569068109113 / 288230376151711744)) = real_of_int (5228117978190687) * 2 powi (- 52)"
    by (rule fl_nearest) (simp_all add: power_int_minus)
  also have "\<dots> = 5228117978190687 / 4503599627370496"
    by (simp add: power_int_minus)
  finally show ?thesis .
qed

lemma corner_sec: "fl (1 / (7179401012205529 / 18014398509481984)) = 5650167630745247 / 2251799813685248"
proof -
  have "fl (1 / (7179401012205529 / 18014398509481984)) = real_of_int (5650167630745247) * 2 powi (- 51)"
    by (rule fl_nearest) (simp_all add: power_int_minus)
  also have "\<dots> = 5650167630745247 / 2251799813685248"
    by (simp add: power_int_minus)
  finally show ?thesis .
qed

lemma corner_sum: "fl (5182064439449633 / 2251799813685248 + 5650167630745247 / 2251799813685248) = 169253626096795 / 35184372088832"
proof -
  have "fl (5182064439449633 / 2251799813685248 + 5650167630745247 / 2251799813685248) = real_of_int (5416116035097440) * 2 powi (- 50)"
    by (rule fl_nearest) (simp_all add: power_int_minus)
  also have "\<dots> = 169253626096795 / 35184372088832"
    by (simp add: power_int_minus)
  finally show ?thesis .
qed

lemma corner_ratio: "fl ((7074237752028441 / 4503599627370496) / math_pi) = 4503599627370497 / 9007199254740992"
proof -
  have "fl ((7074237752028441 / 4503599627370496) / math_pi) = real_of_int (4503599627370497) * 2 powi (- 53)"
    by (rule fl_nearest) (simp_all add: power_int_minus math_pi_def)
  also have "\<dots> = 4503599627370497 / 9007199254740992"
    by (simp add: power_int_minus)
  finally show ?thesis .
qed

lemma corner_one_minus: "fl (1 - 4503599627370497 / 9007199254740992) = 4503599627370495 / 9007199254740992"
proof -
  have "fl (1 - 4503599627370497 / 9007199254740992) = real_of_int (9007199254740990) * 2 powi (- 54)"
    by (rule fl_nearest) (simp_all add: power_int_minus)
  also have "\<dots> = 4503599627370495 / 9007199254740992"
    by (simp add: power_int_minus)
  finally show ?thesis .
qed

lemma corner_half: "fl ((4503599627370495 / 9007199254740992) / 2) = 4503599627370495 / 18014398509481984"
proof -
  have "fl ((4503599627370495 / 9007199254740992) / 2) = real_of_int (9007199254740990) * 2 powi (- 55)"
    by (rule fl_nearest) (simp_all add: power_int_minus)
  also have "\<dots> = 4503599627370495 / 18014398509481984"
    by (simp add: power_int_minus)
  finally show ?thesis .
qed

lemma corner_scale: "fl ((4503599627370495 / 18014398509481984) * 2 ^ 2) = 4503599627370495 / 4503599627370496"
proof -
  have "fl ((4503599627370495 / 18014398509481984) * 2 ^ 2) = real_of_int (9007199254740990) * 2 powi (- 53)"
    by (rule fl_nearest) (simp_all add: power_int_minus)
  also have "\<dots> = 4503599627370495 / 4503599627370496"
    by (simp add: power_int_minus)
  finally show ?thesis .
qed

lemma corner_tile2lat:
  assumes "m_sinh M (884279719003555 / 562949953421312) = 161939513732801 / 70368744177664"
    and "m_atan M (161939513732801 / 70368744177664) = 5228117978190687 / 4503599627370496"
  shows "tile2lat M 1 2 = 4680454608543677 / 70368744177664"
  unfolding tile2lat_def Let_def math_degrees_def
    corner_two_pi corner_y corner_mul corner_div corner_n assms rad_to_deg corner_deg ..

lemma corner_lat2tile:
  assumes "m_tan M (5228117978190687 / 4503599627370496) = 5182064439449633 / 2251799813685248"
    and "m_cos M (5228117978190687 / 4503599627370496) = 7179401012205529 / 18014398509481984"
    and "m_log M (169253626096795 / 35184372088832) = 7074237752028441 / 4503599627370496"
  shows "lat2tile M (4680454608543677 / 70368744177664) 2 = Inr 0"
proof -
  have r: "math_radians (4680454608543677 / 70368744177664) = 5228117978190687 / 4503599627370496"
    unfolding math_radians_def deg_to_rad corner_lat_rad ..
  have s: "fl (m_tan M (5228117978190687 / 4503599627370496)
             + fl (1 / m_cos M (5228117978190687 / 4503599627370496)))
           = 169253626096795 / 35184372088832"
    unfolding assms corner_sec corner_sum ..
  have p: "fl (fl (fl (1 - fl (m_log M (169253626096795 / 35184372088832) / math_pi)) / 2) * 2 ^ 2)
           = 4503599627370495 / 4503599627370496"
    unfolding assms corner_ratio corner_one_minus corner_half corner_scale ..
  have i: "py_int (4503599627370495 / 4503599627370496) = 0"
    by (simp add: py_int_def)
  show ?thesis
    unfolding lat2tile_def Let_def r s p i
    by (simp add: assms)
qed

subsection \<open>Round trip of the tile conversions\<close>

text \<open>
  C1. Converting a tile index to degrees and back gives the index again. The code breaks
  this for the latitude: \<open>tile2lat\<close> of \<open>y = 1\<close> at zoom 2 is the float
  \<open>66.51326044311186\<close>, and \<open>lat2tile\<close> of it computes \<open>0.9999999999999998\<close>, which
  \<^verbatim>\<open>int\<close> truncates to 0. The hypotheses are the five values of the mathematical library
  on the way; every float operation between them is evaluated.
\<close>

theorem tile_round_trip_failing_input:
  assumes "m_sinh M (884279719003555 / 562949953421312) = 161939513732801 / 70368744177664"
    and "m_atan M (161939513732801 / 70368744177664) = 5228117978190687 / 4503599627370496"
    and "m_tan M (5228117978190687 / 4503599627370496) = 5182064439449633 / 2251799813685248"
    and "m_cos M (5228117978190687 / 4503599627370496) = 7179401012205529 / 18014398509481984"
    and "m_log M (169253626096795 / 35184372088832) = 7074237752028441 / 4503599627370496"
  shows "tile2lat M 1 2 = 4680454608543677 / 70368744177664
         \<and> lat2tile M (tile2lat M 1 2) 2 = Inr 0"
  unfolding corner_tile2lat[OF assms(1,2)]
  by (intro conjI refl corner_lat2tile[OF assms(3,4,5)])

theorem tile_round_trip_failing_input_witness:
  "tile2lat corner_libm 1 2 = 4680454608543677 / 70368744177664
   \<and> lat2tile corner_libm (tile2lat corner_libm 1 2) 2 = Inr 0"
  using tile_round_trip_failing_input[of corner_libm] by (simp add: corner_libm_def)

subsection \<open>Mosaic coverage\<close>

text \<open>
  C2. The frame of the covering tile grid contains the rectangle. The code breaks this
  inside the range of the map: for the west longitude \<open>13.403320312499998\<close> at zoom 16 the
  sum \<open>lon + 180\<close> rounds onto the edge of tile 35208, whose west edge
  \<open>13.4033203125\<close> lies east of the rectangle's west side. It also breaks it west of
  \<open>-180\<close>, where \<^verbatim>\<open>int\<close> truncates \<open>-182.04\<close> to \<open>-182\<close>, the tile to the east. In both
  cases the frame does not contain the rectangle, whatever the mathematical library
  returns for the latitudes.
\<close>

theorem mosaic_coverage_failing_input:
  "long2tile (7545398545612799 / 562949953421312) 16 = 35208
   \<and> tile2long 35208 16 = 13.4033203125
   \<and> \<not> covers M (7545398545612799 / 562949953421312, 52.5, 13.40625, 52.5009765625) 16
   \<and> long2tile (- 181) 16 = - 182
   \<and> tile2long (- 182) 16 = - 180.999755859375
   \<and> \<not> covers M (- 181, 0, - 180.99609375, 0.00390625) 16"
proof -
  have 1: "\<not> covers M (7545398545612799 / 562949953421312, 52.5, 13.40625, 52.5009765625) 16"
    by (rule not_covers_west) (simp add: edge_long2tile edge_tile2long)
  have 2: "\<not> covers M (- 181, 0, - 180.99609375, 0.00390625) 16"
    by (rule not_covers_west) (simp add: west_long2tile west_tile2long)
  have 3: "tile2long (- 182) 16 = - 180.999755859375"
    by (simp add: west_tile2long)
  from 1 2 3 edge_long2tile edge_tile2long west_long2tile show ?thesis by blast
qed

subsection \<open>Crop bounds\<close>

text \<open>
  C3. For a mosaic of positive width and height and a tile frame with
  \<open>tiles_west < tiles_east\<close> and \<open>tiles_south < tiles_north\<close>, the exact cropper raises
  nothing and its crop box satisfies \<open>0 \<le> crop_left < crop_right \<le> width\<close> and
  \<open>0 \<le> crop_top < crop_bottom \<le> height\<close>, whatever the user rectangle is.
\<close>

theorem crop_bounds:
  assumes "0 < image_width" "0 < image_height"
    and "tiles_west < tiles_east" "tiles_south < tiles_north"
  shows "\<exists>crop_left crop_top crop_right crop_bottom.
           crop_image_to_exact_bbox (image_width, image_height) user_bbox
             (tiles_west, tiles_south, tiles_east, tiles_north)
             = Inr (crop_left, crop_top, crop_right, crop_bottom)
           \<and> 0 \<le> crop_left \<and> crop_left < crop_right \<and> crop_right \<le> image_width
           \<and> 0 \<le> crop_top \<and> crop_top < crop_bottom \<and> crop_bottom \<le> image_height"
  using assms by (cases user_bbox) (auto simp add: crop_image_to_exact_bbox_def Let_def)

theorem crop_bounds_witness:
  "\<exists>crop_left crop_top crop_right crop_bottom.
     crop_image_to_exact_bbox (512, 256) (3, 1, 100, 2) (0, 0, 4, 4)
       = Inr (crop_left, crop_top, crop_right, crop_bottom)
     \<and> 0 \<le> crop_left \<and> crop_left < crop_right \<and> crop_right \<le> 512
     \<and> 0 \<le> crop_top \<and> crop_top < crop_bottom \<and> crop_bottom \<le> 256"
  using crop_bounds[of 512 256 0 4 0 4 "(3, 1, 100, 2)"] by simp

subsection \<open>Ground plane\<close>

text \<open>
  C4. The ground plane has exactly four vertices, the corners of the rectangle in the
  order south-west, south-east, north-east, north-west, each projected with the origin at
  the middle of the rectangle and placed at \<open>z = -0.1\<close>; its four texture coordinates are
  \<open>(0,0), (1,0), (1,1), (0,1)\<close> in the same order; its two faces are the triangles
  \<open>(1,2,3)\<close> and \<open>(1,3,4)\<close>, each corner using the texture coordinate with the index of
  its vertex, so that south-west carries \<open>(0,0)\<close> and north-east carries \<open>(1,1)\<close>.
\<close>

theorem ground_plane_alignment:
  "snd (create_perfect_ground_plane (west, south, east, north) map_image_path) = 4
   \<and> vertices_of (fst (create_perfect_ground_plane (west, south, east, north) map_image_path))
       = map (\<lambda>(lat, lon).
                (fst (lat_lon_to_meters lat lon ((south + north) / 2) ((west + east) / 2)),
                 snd (lat_lon_to_meters lat lon ((south + north) / 2) ((west + east) / 2)),
                 - 0.1))
           [(south, west), (south, east), (north, east), (north, west)]
   \<and> texcoords_of (fst (create_perfect_ground_plane (west, south, east, north) map_image_path))
       = [(0, 0), (1, 0), (1, 1), (0, 1)]
   \<and> faces_of (fst (create_perfect_ground_plane (west, south, east, north) map_image_path))
       = [[(1, Some 1), (2, Some 2), (3, Some 3)], [(1, Some 1), (3, Some 3), (4, Some 4)]]"
  by (simp add: create_perfect_ground_plane_def Let_def split_beta)

subsection \<open>Height of a building\<close>

lemma height_tag_present:
  assumes "tgs ''building:height'' = Some s"
  shows "height_of_tags L tgs building_height =
           (case lib_float L (filter (\<lambda>c. c \<noteq> CHR '' '') (filter (\<lambda>c. c \<noteq> CHR ''m'') s)) of
              Some v \<Rightarrow> max v 2 | None \<Rightarrow> building_height)"
  using assms by (simp add: height_of_tags_def split: option.splits)

lemma height_tag_absent:
  assumes "tgs ''building:height'' = None"
  shows "height_of_tags L tgs building_height =
           (case tgs ''building:levels'' of
              Some s \<Rightarrow> (case lib_int L s of
                            Some levels \<Rightarrow> max (real_of_int levels * 3.5) 2
                          | None \<Rightarrow> building_height)
            | None \<Rightarrow> building_height)"
  using assms by (simp add: height_of_tags_def split: option.splits)

text \<open>
  C7. With a height tag whose text, every \<open>m\<close> and every space deleted, parses as a
  float \<open>v\<close>, the height is \<open>max v 2\<close>; with no height tag and a levels tag that parses
  as the integer \<open>k\<close>, it is \<open>max (3.5 k) 2\<close>; with no height tag and no levels tag, or a
  levels tag that does not parse, it is the default of the job. Given that the parsers read
  \<open>12.5\<close> and \<open>3\<close> as these numbers, the tags \<open>building:height = 12.5 m\<close> give 12.5, the
  tags \<open>building:levels = 3\<close> give 10.5, and no tags give the default.
\<close>

theorem height_resolution:
  "(tgs ''building:height'' = Some s
      \<and> lib_float L (filter (\<lambda>c. c \<noteq> CHR '' '') (filter (\<lambda>c. c \<noteq> CHR ''m'') s)) = Some v
      \<longrightarrow> height_of_tags L tgs building_height = max v 2)
   \<and> (tgs ''building:height'' = None \<and> tgs ''building:levels'' = Some t \<and> lib_int L t = Some k
      \<longrightarrow> height_of_tags L tgs building_height = max (real_of_int k * 3.5) 2)
   \<and> (tgs ''building:height'' = None \<and> tgs ''building:levels'' = Some t \<and> lib_int L t = None
      \<longrightarrow> height_of_tags L tgs building_height = building_height)
   \<and> (tgs ''building:height'' = None \<and> tgs ''building:levels'' = None
      \<longrightarrow> height_of_tags L tgs building_height = building_height)
   \<and> (lib_float L ''12.5'' = Some 12.5
      \<longrightarrow> height_of_tags L [''building:height'' \<mapsto> ''12.5 m''] building_height = 12.5)
   \<and> (lib_int L ''3'' = Some 3
      \<longrightarrow> height_of_tags L [''building:levels'' \<mapsto> ''3''] building_height = 10.5)
   \<and> height_of_tags L Map.empty building_height = building_height"
  by (simp add: height_of_tags_def)

theorem height_resolution_witness:
  "height_of_tags plain_library [''building:height'' \<mapsto> ''12.5 m''] 10 = 12.5
   \<and> height_of_tags plain_library [''building:levels'' \<mapsto> ''3''] 10 = 10.5
   \<and> height_of_tags plain_library [''building:levels'' \<mapsto> ''three''] 10 = 10
   \<and> height_of_tags plain_library Map.empty 10 = 10"
proof -
  have f: "lib_float plain_library ''12.5'' = Some 12.5"
    by (simp add: plain_library_def decimal_float_def unsigned_float_def unsigned_int_def digit_of_def)
  have i: "lib_int plain_library ''3'' = Some 3"
    by (simp add: plain_library_def decimal_int_def unsigned_int_def digit_of_def)
  have n: "lib_int plain_library ''three'' = None"
    by (simp add: plain_library_def decimal_int_def unsigned_int_def digit_of_def)
  show ?thesis
    using height_resolution[where L = plain_library and building_height = 10
        and tgs = "[''building:levels'' \<mapsto> ''three'']" and t = "''three''"]
      f i n
    by simp
qed

text \<open>
  C10. When the footprint carries a height tag, the levels tag plays no part: the height
  is the same whatever the levels tag is, and if the text of the height tag, every \<open>m\<close>
  and every space deleted, does not parse as a float, the height is the default of the job.
\<close>

theorem height_fallback_precedence:
  assumes "tgs ''building:height'' = Some s"
  shows "(lib_float L (filter (\<lambda>c. c \<noteq> CHR '' '') (filter (\<lambda>c. c \<noteq> CHR ''m'') s)) = None
            \<longrightarrow> height_of_tags L tgs building_height = building_height)
         \<and> height_of_tags L (tgs(''building:levels'' := levels_tag)) building_height
             = height_of_tags L tgs building_height"
  using assms by (simp add: height_of_tags_def)

theorem height_fallback_precedence_witness:
  "height_of_tags plain_library
     [''building:height'' \<mapsto> ''tall'', ''building:levels'' \<mapsto> ''3''] 10 = 10
   \<and> height_of_tags plain_library
       ([''building:height'' \<mapsto> ''tall'', ''building:levels'' \<mapsto> ''3'']
          (''building:levels'' := None)) 10 = 10
   \<and> height_of_tags plain_library [''building:levels'' \<mapsto> ''3''] 10 = 10.5"
proof -
  have f: "lib_float plain_library ''tall'' = None"
    by (simp add: plain_library_def decimal_float_def unsigned_float_def unsigned_int_def digit_of_def)
  have i: "lib_int plain_library ''3'' = Some 3"
    by (simp add: plain_library_def decimal_int_def unsigned_int_def digit_of_def)
  have t: "[''building:height'' \<mapsto> ''tall'', ''building:levels'' \<mapsto> ''3''] ''building:height'' = Some ''tall''"
    by simp
  have l: "height_of_tags plain_library [''building:levels'' \<mapsto> ''3''] 10 = 10.5"
    using i by (simp add: height_of_tags_def)
  have "height_of_tags plain_library
          [''building:height'' \<mapsto> ''tall'', ''building:levels'' \<mapsto> ''3''] 10 = 10
        \<and> height_of_tags plain_library
            ([''building:height'' \<mapsto> ''tall'', ''building:levels'' \<mapsto> ''3'']
               (''building:levels'' := None)) 10
          = height_of_tags plain_library
              [''building:height'' \<mapsto> ''tall'', ''building:levels'' \<mapsto> ''3''] 10"
    using height_fallback_precedence[where L = plain_library and building_height = 10
        and s = "''tall''" and levels_tag = None
        and tgs = "[''building:height'' \<mapsto> ''tall'', ''building:levels'' \<mapsto> ''3'']"] t f
    by simp
  then show ?thesis using l by simp
qed

subsection \<open>Emission of a building\<close>

lemma vertex_loop_closed:
  "vertex_loop cs height obj_lines vertex_count base_vertices top_vertices =
     (obj_lines @ ring_vertices cs height,
      vertex_count + 2 * length cs,
      base_vertices @ map (\<lambda>i. vertex_count + 2 * i + 1) [0..<length cs],
      top_vertices @ map (\<lambda>i. vertex_count + 2 * i + 2) [0..<length cs])"
proof (induction cs arbitrary: obj_lines vertex_count base_vertices top_vertices)
  case Nil
  then show ?case by (simp add: ring_vertices_def)
next
  case (Cons c cs)
  obtain x y where c: "c = (x, y)" by (cases c)
  show ?case
    unfolding c
    by (simp add: Cons.IH Let_def ring_vertices_def map_upt_Suc del: upt_Suc)
qed

lemma wall_face_closed:
  assumes "i < n"
  shows "wall_face (map (\<lambda>i. vc + 2 * i + 1) [0..<n]) (map (\<lambda>i. vc + 2 * i + 2) [0..<n]) n i =
           Face [(vc + 2 * i + 1, None), (vc + 2 * ((i + 1) mod n) + 1, None),
                 (vc + 2 * ((i + 1) mod n) + 2, None), (vc + 2 * i + 2, None)]"
proof -
  have "(i + 1) mod n < n" using assms by simp
  then show ?thesis using assms by (simp add: wall_face_def Let_def del: upt_Suc)
qed

lemma emit_building_closed:
  "emit_building cs height (obj_lines, vertex_count, building_count) =
     (obj_lines @ ring_vertices cs height
        @ [GroupBuilding (building_count + 1),
           UseMtl ''building_material'',
           Face (map (\<lambda>i. (vertex_count + 2 * i + 1, None)) (rev [0..<length cs])),
           Face (map (\<lambda>i. (vertex_count + 2 * i + 2, None)) [0..<length cs])]
        @ map (\<lambda>i. Face [(vertex_count + 2 * i + 1, None),
                         (vertex_count + 2 * ((i + 1) mod length cs) + 1, None),
                         (vertex_count + 2 * ((i + 1) mod length cs) + 2, None),
                         (vertex_count + 2 * i + 2, None)]) [0..<length cs],
      vertex_count + 2 * length cs,
      building_count + 1)"
proof -
  let ?n = "length cs"
  let ?b = "map (\<lambda>i. vertex_count + 2 * i + 1) [0..<?n]"
  let ?t = "map (\<lambda>i. vertex_count + 2 * i + 2) [0..<?n]"
  have w: "map (wall_face ?b ?t ?n) [0..<?n] =
           map (\<lambda>i. Face [(vertex_count + 2 * i + 1, None),
                         (vertex_count + 2 * ((i + 1) mod ?n) + 1, None),
                         (vertex_count + 2 * ((i + 1) mod ?n) + 2, None),
                         (vertex_count + 2 * i + 2, None)]) [0..<?n]"
  proof (rule map_cong)
    fix i assume "i \<in> set [0..<?n]"
    then have "i < ?n" by simp
    then show "wall_face ?b ?t ?n i =
           Face [(vertex_count + 2 * i + 1, None),
                 (vertex_count + 2 * ((i + 1) mod ?n) + 1, None),
                 (vertex_count + 2 * ((i + 1) mod ?n) + 2, None),
                 (vertex_count + 2 * i + 2, None)]"
      by (rule wall_face_closed)
  qed simp
  have b: "map (\<lambda>i. (?b ! i, None :: nat option)) (rev [0..<?n]) =
           map (\<lambda>i. (vertex_count + 2 * i + 1, None)) (rev [0..<?n])"
    by (rule map_cong) (simp_all del: upt_Suc)
  have t: "map (\<lambda>i. (?t ! i, None :: nat option)) [0..<?n] =
           map (\<lambda>i. (vertex_count + 2 * i + 2, None)) [0..<?n]"
    by (rule map_cong) (simp_all del: upt_Suc)
  have "emit_building cs height (obj_lines, vertex_count, building_count) =
     (obj_lines @ ring_vertices cs height
        @ [GroupBuilding (building_count + 1),
           UseMtl ''building_material'',
           Face (map (\<lambda>i. (?b ! i, None)) (rev [0..<?n])),
           Face (map (\<lambda>i. (?t ! i, None)) [0..<?n])]
        @ map (wall_face ?b ?t ?n) [0..<?n],
      vertex_count + 2 * ?n,
      building_count + 1)"
    by (simp add: emit_building_def vertex_loop_closed Let_def del: upt_Suc)
  then show ?thesis by (simp only: w b t)
qed


lemma vertices_of_append: "vertices_of (ls @ ms) = vertices_of ls @ vertices_of ms"
  by (induction ls rule: vertices_of.induct) simp_all

lemma faces_of_append: "faces_of (ls @ ms) = faces_of ls @ faces_of ms"
  by (induction ls rule: faces_of.induct) simp_all

lemma vertices_of_ring_vertices:
  "vertices_of (ring_vertices cs height) = concat (map (\<lambda>(x, y). [(x, y, 0), (x, y, height)]) cs)"
  by (induction cs) (auto simp add: ring_vertices_def)

lemma length_vertices_of_ring_vertices:
  "length (vertices_of (ring_vertices cs height)) = 2 * length cs"
  by (induction cs) (auto simp add: ring_vertices_def)

lemma faces_of_ring_vertices: "faces_of (ring_vertices cs height) = []"
  by (induction cs) (auto simp add: ring_vertices_def)

lemma vertices_of_faces:
  "vertices_of (map (\<lambda>i. Face (f i)) is) = []"
  by (induction "is") simp_all

lemma faces_of_faces:
  "faces_of (map (\<lambda>i. Face (f i)) is) = map f is"
  by (induction "is") simp_all

lemma indices_valid_append:
  "indices_valid k (ls @ ms) =
     (indices_valid k ls \<and> indices_valid (k + length (vertices_of ls)) ms)"
  by (induction k ls rule: indices_valid.induct) simp_all

lemma indices_valid_ring_vertices: "indices_valid k (ring_vertices cs height)"
  by (induction cs arbitrary: k) (auto simp add: ring_vertices_def)

lemma indices_valid_faces:
  assumes "\<And>i. i \<in> set is \<Longrightarrow> list_all (\<lambda>c. 1 \<le> fst c \<and> fst c \<le> k) (f i)"
  shows "indices_valid k (map (\<lambda>i. Face (f i)) is)"
  using assms by (induction "is") simp_all

lemma emit_building_invariant:
  assumes "vertex_count = k0 + length (vertices_of obj_lines)" "indices_valid k0 obj_lines"
    and "emit_building cs height (obj_lines, vertex_count, building_count) = (ls', vc', bc')"
  shows "vc' = k0 + length (vertices_of ls') \<and> indices_valid k0 ls' \<and> vc' = vertex_count + 2 * length cs"
proof -
  let ?n = "length cs"
  let ?K = "vertex_count + 2 * ?n"
  have walls: "indices_valid ?K
      (map (\<lambda>i. Face [(vertex_count + 2 * i + 1, None),
                      (vertex_count + 2 * ((i + 1) mod ?n) + 1, None),
                      (vertex_count + 2 * ((i + 1) mod ?n) + 2, None),
                      (vertex_count + 2 * i + 2, None)]) [0..<?n])"
  proof (rule indices_valid_faces)
    fix i assume "i \<in> set [0..<?n]"
    then have i: "i < ?n" by simp
    then have "0 < ?n" by linarith
    then have "(i + 1) mod ?n < ?n" by (rule mod_less_divisor)
    then show "list_all (\<lambda>c. 1 \<le> fst c \<and> fst c \<le> ?K)
        [(vertex_count + 2 * i + 1, None), (vertex_count + 2 * ((i + 1) mod ?n) + 1, None),
         (vertex_count + 2 * ((i + 1) mod ?n) + 2, None), (vertex_count + 2 * i + 2, None)]"
      using i by simp
  qed
  have bottom: "list_all (\<lambda>c. 1 \<le> fst c \<and> fst c \<le> ?K)
      (map (\<lambda>i. (vertex_count + 2 * i + 1, None :: nat option)) (rev [0..<?n]))"
    by (auto simp add: list_all_iff)
  have top: "list_all (\<lambda>c. 1 \<le> fst c \<and> fst c \<le> ?K)
      (map (\<lambda>i. (vertex_count + 2 * i + 2, None :: nat option)) [0..<?n])"
    by (auto simp add: list_all_iff)
  have K: "k0 + length (vertices_of obj_lines) + length (vertices_of (ring_vertices cs height)) = ?K"
    using assms(1) by (simp add: length_vertices_of_ring_vertices)
  from assms(3) have ls': "ls' = obj_lines @ ring_vertices cs height
        @ [GroupBuilding (building_count + 1),
           UseMtl ''building_material'',
           Face (map (\<lambda>i. (vertex_count + 2 * i + 1, None)) (rev [0..<length cs])),
           Face (map (\<lambda>i. (vertex_count + 2 * i + 2, None)) [0..<length cs])]
        @ map (\<lambda>i. Face [(vertex_count + 2 * i + 1, None),
                         (vertex_count + 2 * ((i + 1) mod length cs) + 1, None),
                         (vertex_count + 2 * ((i + 1) mod length cs) + 2, None),
                         (vertex_count + 2 * i + 2, None)]) [0..<length cs]"
    and vc': "vc' = ?K"
    unfolding emit_building_closed by (auto simp del: upt_Suc)
  have "length (vertices_of ls') = length (vertices_of obj_lines) + 2 * ?n"
    unfolding ls' by (simp add: vertices_of_append length_vertices_of_ring_vertices vertices_of_faces del: upt_Suc)
  moreover have "indices_valid k0 ls'"
    unfolding ls'
    using assms(2) walls bottom top
    by (simp add: indices_valid_append indices_valid_ring_vertices K del: upt_Suc)
  ultimately show ?thesis using assms(1) vc' by simp
qed

subsection \<open>The loop over the elements\<close>

lemma simplify_and_emit_cases:
  assumes "simplify_and_emit L tolerance building_height tgs local_coords polygon st = Inr st'"
  shows "st' = st \<or> (\<exists>sc h. 3 \<le> length sc \<and> st' = emit_building sc h st)"
  using assms
  by (auto simp add: simplify_and_emit_def Let_def not_less split: option.splits if_splits)

lemma try_block_cases:
  assumes "try_block L origin_lat origin_lon building_height tolerance threshold tgs coords st = Inr st'"
  shows "st' = st \<or> (\<exists>sc h. 3 \<le> length sc \<and> st' = emit_building sc h st)"
  using assms
  by (auto simp add: try_block_def split: sum.splits option.splits if_splits
        dest: simplify_and_emit_cases)

lemma process_element_cases:
  assumes "process_element L origin_lat origin_lon building_height tolerance threshold st e = Inr st'"
  shows "st' = st \<or> (\<exists>sc h. 3 \<le> length sc \<and> st' = emit_building sc h st)"
  using assms
  by (auto simp add: process_element_def Let_def
        split: sum.splits option.splits if_splits caught.splits dest: try_block_cases)

lemma process_element_Inl:
  assumes "process_element L origin_lat origin_lon building_height tolerance threshold st e = Inl err"
  shows "\<exists>nds. el_geometry e = Some nds \<and> node_coords nds = Inl err"
  using assms
  by (auto simp add: process_element_def Let_def
        split: sum.splits option.splits if_splits caught.splits)

lemma simplify_and_emit_raise:
  "simplify_and_emit L tolerance building_height tgs local_coords polygon st = Inl r
     \<longleftrightarrow> lib_simplify L polygon tolerance = None"
  by (cases r) (auto simp add: simplify_and_emit_def Let_def split: option.splits)

lemma try_block_raise_any_builder:
  assumes "try_block L origin_lat origin_lon building_height tolerance threshold tgs coords st = Inl r"
  shows "try_block L origin_lat origin_lon building_height tolerance threshold tgs coords st' = Inl Raised"
  using assms
  by (auto simp add: try_block_def simplify_and_emit_raise split: sum.splits option.splits if_splits)

lemma element_loop_append:
  "element_loop L origin_lat origin_lon building_height tolerance threshold st (xs @ ys) =
     (case element_loop L origin_lat origin_lon building_height tolerance threshold st xs of
        Inl err \<Rightarrow> Inl err
      | Inr st' \<Rightarrow> element_loop L origin_lat origin_lon building_height tolerance threshold st' ys)"
  by (induction xs arbitrary: st) (auto split: sum.splits)

lemma element_loop_invariant:
  assumes "element_loop L origin_lat origin_lon building_height tolerance threshold
             (obj_lines, vertex_count, building_count) es = Inr (ls', vc', bc')"
    and "vertex_count = k0 + length (vertices_of obj_lines)" "indices_valid k0 obj_lines"
  shows "vc' = k0 + length (vertices_of ls') \<and> indices_valid k0 ls' \<and> vertex_count \<le> vc'"
  using assms
proof (induction es arbitrary: obj_lines vertex_count building_count)
  case Nil
  then show ?case by auto
next
  case (Cons e es)
  from Cons.prems(1) obtain ls1 vc1 bc1 where
    step: "process_element L origin_lat origin_lon building_height tolerance threshold
             (obj_lines, vertex_count, building_count) e = Inr (ls1, vc1, bc1)"
    and rest: "element_loop L origin_lat origin_lon building_height tolerance threshold
             (ls1, vc1, bc1) es = Inr (ls', vc', bc')"
    by (auto split: sum.splits)
  have inv1: "vc1 = k0 + length (vertices_of ls1) \<and> indices_valid k0 ls1 \<and> vertex_count \<le> vc1"
    using process_element_cases[OF step]
  proof
    assume "(ls1, vc1, bc1) = (obj_lines, vertex_count, building_count)"
    then show ?thesis using Cons.prems(2,3) by simp
  next
    assume "\<exists>sc h. 3 \<le> length sc \<and>
              (ls1, vc1, bc1) = emit_building sc h (obj_lines, vertex_count, building_count)"
    then obtain sc h where
      "emit_building sc h (obj_lines, vertex_count, building_count) = (ls1, vc1, bc1)"
      by auto
    from emit_building_invariant[OF Cons.prems(2,3) this] show ?thesis by simp
  qed
  from Cons.IH[OF rest] inv1 show ?case by simp
qed

lemma node_coords_length: "node_coords nds = Inr cs \<Longrightarrow> length cs = length nds"
  by (induction nds arbitrary: cs) (auto split: sum.splits)

subsection \<open>Accepted, rejected and skipped footprints\<close>

lemma process_element_accepted:
  assumes "truthy (el_tags e ''building'')" "el_geometry e = Some nds"
    and "node_coords nds = Inr coords" "4 \<le> length coords"
    and "project_coords (if hd coords = last coords then butlast coords else coords)
           origin_lat origin_lon = Inr local_coords"
    and "lib_Polygon L local_coords = Some polygon"
    and "lib_is_valid L polygon" "threshold \<le> lib_area L polygon"
  shows "process_element L origin_lat origin_lon building_height tolerance threshold st e =
           (case simplify_and_emit L tolerance building_height (el_tags e) local_coords polygon st of
              Inl Raised \<Rightarrow> Inr st
            | Inr st' \<Rightarrow> Inr st')"
proof -
  have "3 \<le> length (if hd coords = last coords then butlast coords else coords)"
    using assms(4) by auto
  then show ?thesis
    using assms by (simp add: process_element_def try_block_def Let_def not_less)
qed

lemma simplify_and_emit_polygon:
  assumes "lib_simplify L polygon tolerance = Some (SimplifiedPolygon exterior)"
    and "3 \<le> length (butlast exterior)"
  shows "simplify_and_emit L tolerance building_height tgs local_coords polygon st =
           Inr (emit_building (butlast exterior) (height_of_tags L tgs building_height) st)"
  using assms by (simp add: simplify_and_emit_def Let_def)

lemma process_element_rejected_short:
  assumes "el_geometry e = Some nds" "node_coords nds = Inr coords"
    and "length coords < 4 \<or> length (if hd coords = last coords then butlast coords else coords) < 3"
  shows "process_element L origin_lat origin_lon building_height tolerance threshold st e = Inr st"
  using assms by (auto simp add: process_element_def Let_def)

lemma process_element_rejected_polygon:
  assumes "el_geometry e = Some nds" "node_coords nds = Inr coords"
    and "project_coords (if hd coords = last coords then butlast coords else coords)
           origin_lat origin_lon = Inr local_coords"
    and "lib_Polygon L local_coords = Some polygon"
    and "\<not> lib_is_valid L polygon \<or> lib_area L polygon < threshold"
  shows "process_element L origin_lat origin_lon building_height tolerance threshold st e = Inr st"
  using assms by (auto simp add: process_element_def try_block_def Let_def)

lemma process_element_raised:
  assumes "el_geometry e = Some nds" "node_coords nds = Inr coords"
    and "try_block L origin_lat origin_lon building_height tolerance threshold (el_tags e)
           (if hd coords = last coords then butlast coords else coords) st0 = Inl r"
  shows "process_element L origin_lat origin_lon building_height tolerance threshold st e = Inr st"
  using assms(1,2) try_block_raise_any_builder[OF assms(3), of st]
  by (simp add: process_element_def Let_def)

lemma process_element_well_formed:
  assumes "\<And>nds. el_geometry e = Some nds \<Longrightarrow> \<exists>coords. node_coords nds = Inr coords"
  shows "\<exists>st'. process_element L origin_lat origin_lon building_height tolerance threshold st e = Inr st'"
proof (cases "process_element L origin_lat origin_lon building_height tolerance threshold st e")
  case (Inl err)
  from process_element_Inl[OF Inl] assms show ?thesis by fastforce
next
  case (Inr st')
  then show ?thesis by (intro exI)
qed

lemma element_loop_well_formed:
  assumes "\<And>e nds. e \<in> set es \<Longrightarrow> el_geometry e = Some nds \<Longrightarrow> \<exists>coords. node_coords nds = Inr coords"
  shows "\<exists>st'. element_loop L origin_lat origin_lon building_height tolerance threshold st es = Inr st'"
  using assms
proof (induction es arbitrary: st)
  case Nil
  show ?case by (rule exI[where x = st]) simp
next
  case (Cons e es)
  have "\<exists>st1. process_element L origin_lat origin_lon building_height tolerance threshold st e = Inr st1"
    by (rule process_element_well_formed) (use Cons.prems in auto)
  then obtain st1 where
    s: "process_element L origin_lat origin_lon building_height tolerance threshold st e = Inr st1" ..
  have "\<exists>st'. element_loop L origin_lat origin_lon building_height tolerance threshold st1 es = Inr st'"
    by (rule Cons.IH) (use Cons.prems in auto)
  then obtain st2 where
    "element_loop L origin_lat origin_lon building_height tolerance threshold st1 es = Inr st2" ..
  then have "element_loop L origin_lat origin_lon building_height tolerance threshold st (e # es) = Inr st2"
    using s by simp
  then show ?case by (intro exI)
qed

lemma element_loop_skip:
  assumes "\<And>st. process_element L origin_lat origin_lon building_height tolerance threshold st e = Inr st"
  shows "element_loop L origin_lat origin_lon building_height tolerance threshold st (xs @ e # ys) =
         element_loop L origin_lat origin_lon building_height tolerance threshold st (xs @ ys)"
  by (simp add: element_loop_append assms split: sum.splits)

subsection \<open>The mesh document\<close>

lemma faces_of_ground:
  "faces_of (fst (create_perfect_ground_plane b p)) =
     [[(1, Some 1), (2, Some 2), (3, Some 3)], [(1, Some 1), (3, Some 3), (4, Some 4)]]"
  by (cases b) (simp add: create_perfect_ground_plane_def Let_def split_beta)

lemma length_vertices_of_ground:
  "length (vertices_of (fst (create_perfect_ground_plane b p))) = 4"
  by (cases b) (simp add: create_perfect_ground_plane_def Let_def split_beta)

lemma indices_valid_ground:
  "indices_valid 0 (fst (create_perfect_ground_plane b p))"
  by (cases b) (simp add: create_perfect_ground_plane_def Let_def split_beta)

lemma export_obj_lines_eq:
  assumes "create_building_geometry L (filter (\<lambda>e. truthy (el_tags e ''building'')) elements)
             ((south + north) / 2) ((west + east) / 2) building_height quality
           = Inr (building_lines, total_vertices, building_count)"
  shows "export_obj_lines L (west, south, east, north) elements building_height quality =
           Inr ([Comment ''Perfect Aligned 3D Map'',
                 CommentBbox (west, south, east, north),
                 CommentOrigin ((south + north) / 2) ((west + east) / 2),
                 Blank, MtlLib ''perfect_materials.mtl'', Blank]
                @ fst (create_perfect_ground_plane (west, south, east, north) ''perfect_map.png'')
                @ building_lines)"
  using assms by (simp add: export_obj_lines_def Let_def split_beta)

lemma one_accepted_building:
  assumes "truthy (el_tags e ''building'')" "el_geometry e = Some nds"
    and "node_coords nds = Inr coords" "4 \<le> length coords"
    and "project_coords (if hd coords = last coords then butlast coords else coords)
           origin_lat origin_lon = Inr local_coords"
    and "lib_Polygon L local_coords = Some polygon"
    and "lib_is_valid L polygon" "min_area_threshold quality \<le> lib_area L polygon"
    and "lib_simplify L polygon (simplification_tolerance quality) = Some (SimplifiedPolygon exterior)"
    and "3 \<le> length (butlast exterior)"
  shows "create_building_geometry L [e] origin_lat origin_lon building_height quality =
           Inr (emit_building (butlast exterior) (height_of_tags L (el_tags e) building_height)
                  ([Comment ''Buildings positioned on perfect ground''], 4, 0))"
  by (simp add: create_building_geometry_def
        process_element_accepted[OF assms(1-8)] simplify_and_emit_polygon[OF assms(9,10)])

lemma emit_four:
  "emit_building [p0, p1, p2, p3] h ([Comment ''Buildings positioned on perfect ground''], 4, 0) =
     ([Comment ''Buildings positioned on perfect ground'',
       Vertex (fst p0) (snd p0) 0, Vertex (fst p0) (snd p0) h,
       Vertex (fst p1) (snd p1) 0, Vertex (fst p1) (snd p1) h,
       Vertex (fst p2) (snd p2) 0, Vertex (fst p2) (snd p2) h,
       Vertex (fst p3) (snd p3) 0, Vertex (fst p3) (snd p3) h,
       GroupBuilding 1, UseMtl ''building_material'',
       Face [(11, None), (9, None), (7, None), (5, None)],
       Face [(6, None), (8, None), (10, None), (12, None)],
       Face [(5, None), (7, None), (8, None), (6, None)],
       Face [(7, None), (9, None), (10, None), (8, None)],
       Face [(9, None), (11, None), (12, None), (10, None)],
       Face [(11, None), (5, None), (6, None), (12, None)]], 12, 1)"
  by (simp add: emit_building_closed ring_vertices_def split_beta upt_rec[of _ "Suc _"])

subsection \<open>The sample job\<close>

lemma lat_lon_to_meters_origin_0:
  "lat_lon_to_meters lat lon 0 0 = (6378137 * radians lon, 6378137 * radians lat)"
  by (simp add: lat_lon_to_meters_def Let_def radians_def)

lemma sample_node_coords:
  "node_coords (the (el_geometry sample_footprint)) =
     Inr [(JNum 0, JNum 0), (JNum 0.0005, JNum 0), (JNum 0.0005, JNum 0.0005),
          (JNum 0, JNum 0.0005), (JNum 0, JNum 0)]"
  by (simp add: sample_footprint_def node_coord_def)

lemma sample_project:
  "project_coords [(JNum 0, JNum 0), (JNum 0.0005, JNum 0), (JNum 0.0005, JNum 0.0005),
          (JNum 0, JNum 0.0005)] 0 0 = Inr sample_ring"
  by (simp add: lat_lon_to_meters_origin_0 sample_ring_def sample_side_def radians_def)

lemma sample_side_ge: "35 \<le> sample_side"
proof -
  have "6378137 * (0.0005 * 2 / 180) \<le> 6378137 * (0.0005 * pi / 180)"
    using pi_ge_two by simp
  moreover have "(35 :: real) \<le> 6378137 * (0.0005 * 2 / 180)" by simp
  ultimately show ?thesis unfolding sample_side_def radians_def by linarith
qed

lemma sample_area: "shoelace_area sample_ring = sample_side * sample_side"
  by (simp add: shoelace_area_def sample_ring_def)

lemma sample_area_ge: "25 \<le> shoelace_area sample_ring"
proof -
  have "35 * 35 \<le> sample_side * sample_side"
    using sample_side_ge by (intro mult_mono) simp_all
  then show ?thesis unfolding sample_area by linarith
qed

lemma sample_valid: "lib_is_valid plain_library sample_ring"
proof -
  have "sample_side \<noteq> 0" using sample_side_ge by linarith
  then have "distinct sample_ring" by (simp add: sample_ring_def)
  moreover have "0 < shoelace_area sample_ring" using sample_area_ge by linarith
  ultimately show ?thesis by (simp add: plain_library_def)
qed

lemma sample_height: "height_of_tags plain_library (el_tags sample_footprint) 10 = 9"
  by (simp add: height_of_tags_def sample_footprint_def plain_library_def decimal_float_def
        unsigned_float_def unsigned_int_def digit_of_def)

lemma sample_accept:
  "truthy (el_tags sample_footprint ''building'')"
  "el_geometry sample_footprint = Some (the (el_geometry sample_footprint))"
  "lib_Polygon plain_library sample_ring = Some sample_ring"
  "min_area_threshold ''medium'' \<le> lib_area plain_library sample_ring"
  "lib_simplify plain_library sample_ring (simplification_tolerance ''medium'')
     = Some (SimplifiedPolygon [(0, 0), (sample_side, 0), (sample_side, sample_side), (0, sample_side), (0, 0)])"
  using sample_area_ge
  by (simp_all add: truthy_def sample_footprint_def plain_library_def min_area_threshold_def sample_ring_def)

lemma sample_building_geometry:
  "create_building_geometry plain_library [sample_footprint] 0 0 10 ''medium'' =
     Inr ([Comment ''Buildings positioned on perfect ground'',
           Vertex 0 0 0, Vertex 0 0 9,
           Vertex sample_side 0 0, Vertex sample_side 0 9,
           Vertex sample_side sample_side 0, Vertex sample_side sample_side 9,
           Vertex 0 sample_side 0, Vertex 0 sample_side 9,
           GroupBuilding 1, UseMtl ''building_material'',
           Face [(11, None), (9, None), (7, None), (5, None)],
           Face [(6, None), (8, None), (10, None), (12, None)],
           Face [(5, None), (7, None), (8, None), (6, None)],
           Face [(7, None), (9, None), (10, None), (8, None)],
           Face [(9, None), (11, None), (12, None), (10, None)],
           Face [(11, None), (5, None), (6, None), (12, None)]], 12, 1)"
proof -
  have "create_building_geometry plain_library [sample_footprint] 0 0 10 ''medium'' =
          Inr (emit_building
                 (butlast [(0, 0), (sample_side, 0), (sample_side, sample_side), (0, sample_side), (0, 0)])
                 (height_of_tags plain_library (el_tags sample_footprint) 10)
                 ([Comment ''Buildings positioned on perfect ground''], 4, 0))"
  proof (rule one_accepted_building)
    show "truthy (el_tags sample_footprint ''building'')" by (rule sample_accept)
    show "el_geometry sample_footprint = Some (the (el_geometry sample_footprint))"
      by (rule sample_accept)
    show "node_coords (the (el_geometry sample_footprint)) =
            Inr [(JNum 0, JNum 0), (JNum 0.0005, JNum 0), (JNum 0.0005, JNum 0.0005),
                 (JNum 0, JNum 0.0005), (JNum 0, JNum 0)]"
      by (rule sample_node_coords)
    show "project_coords
            (if hd [(JNum 0, JNum 0), (JNum 0.0005, JNum 0), (JNum 0.0005, JNum 0.0005),
                    (JNum 0, JNum 0.0005), (JNum 0, JNum 0)]
                = last [(JNum 0, JNum 0), (JNum 0.0005, JNum 0), (JNum 0.0005, JNum 0.0005),
                    (JNum 0, JNum 0.0005), (JNum 0, JNum 0)]
             then butlast [(JNum 0, JNum 0), (JNum 0.0005, JNum 0), (JNum 0.0005, JNum 0.0005),
                    (JNum 0, JNum 0.0005), (JNum 0, JNum 0)]
             else [(JNum 0, JNum 0), (JNum 0.0005, JNum 0), (JNum 0.0005, JNum 0.0005),
                    (JNum 0, JNum 0.0005), (JNum 0, JNum 0)]) 0 0 = Inr sample_ring"
      using sample_project by simp
    show "lib_Polygon plain_library sample_ring = Some sample_ring" by (rule sample_accept)
    show "lib_is_valid plain_library sample_ring" by (rule sample_valid)
    show "min_area_threshold ''medium'' \<le> lib_area plain_library sample_ring"
      by (rule sample_accept)
    show "lib_simplify plain_library sample_ring (simplification_tolerance ''medium'')
            = Some (SimplifiedPolygon
                 [(0, 0), (sample_side, 0), (sample_side, sample_side), (0, sample_side), (0, 0)])"
      by (rule sample_accept)
  qed simp_all
  then show ?thesis by (simp add: sample_height emit_four)
qed

lemma sample_process_element:
  "process_element plain_library 0 0 10 (simplification_tolerance ''medium'')
     (min_area_threshold ''medium'') ([Comment ''Buildings positioned on perfect ground''], 4, 0)
     sample_footprint = Inr (sample_lines, 12, 1)"
  using sample_building_geometry
  by (simp add: create_building_geometry_def sample_lines_def split: sum.splits)

lemma sample_export:
  "export_obj_lines plain_library sample_bbox [sample_footprint] 10 ''medium'' =
     Inr ([Comment ''Perfect Aligned 3D Map'', CommentBbox sample_bbox, CommentOrigin 0 0,
           Blank, MtlLib ''perfect_materials.mtl'', Blank]
          @ fst (create_perfect_ground_plane sample_bbox ''perfect_map.png'')
          @ sample_lines)"
proof -
  have "create_building_geometry plain_library
          (filter (\<lambda>e. truthy (el_tags e ''building'')) [sample_footprint])
          ((- 0.001 + 0.001) / 2) ((- 0.001 + 0.001) / 2) 10 ''medium'' = Inr (sample_lines, 12, 1)"
    using sample_building_geometry sample_accept(1) by (simp add: sample_lines_def)
  from export_obj_lines_eq[OF this] show ?thesis by (simp add: sample_bbox_def)
qed

subsection \<open>Extrusion\<close>

text \<open>
  C5. The emission of a building for a ring of \<open>n\<close> points appends, for each point in
  turn, its base vertex at \<open>z = 0\<close> and its top vertex at \<open>z = height\<close> (the point
  \<open>i\<close>, counted from 0, gets the indices \<open>vertex_count + 2 i + 1\<close> and
  \<open>vertex_count + 2 i + 2\<close>), then the group and material lines, the bottom face listing
  the base vertices in reversed order, the top face listing the top vertices in order, and
  \<open>n\<close> wall faces \<open>(base i, base (i+1), top (i+1), top i)\<close> with \<open>i + 1\<close> taken modulo
  \<open>n\<close>; the vertex counter grows by \<open>2 n\<close>. A job with one accepted footprint whose
  simplified ring has four points gives a document with the 4 ground vertices followed by
  8 building vertices, the 2 ground faces, the bottom and the top face, and 4 wall faces.
\<close>

theorem extrusion_emission:
  "emit_building simplified_coords height (obj_lines, vertex_count, building_count) =
     (obj_lines
        @ concat (map (\<lambda>(x, y). [Vertex x y 0, Vertex x y height]) simplified_coords)
        @ [GroupBuilding (building_count + 1),
           UseMtl ''building_material'',
           Face (map (\<lambda>i. (vertex_count + 2 * i + 1, None)) (rev [0..<length simplified_coords])),
           Face (map (\<lambda>i. (vertex_count + 2 * i + 2, None)) [0..<length simplified_coords])]
        @ map (\<lambda>i. Face [(vertex_count + 2 * i + 1, None),
                         (vertex_count + 2 * ((i + 1) mod length simplified_coords) + 1, None),
                         (vertex_count + 2 * ((i + 1) mod length simplified_coords) + 2, None),
                         (vertex_count + 2 * i + 2, None)]) [0..<length simplified_coords],
      vertex_count + 2 * length simplified_coords,
      building_count + 1)
   \<and> (truthy (el_tags e ''building'') \<and> el_geometry e = Some nds
        \<and> node_coords nds = Inr coords \<and> 4 \<le> length coords
        \<and> project_coords (if hd coords = last coords then butlast coords else coords)
              ((south + north) / 2) ((west + east) / 2) = Inr local_coords
        \<and> lib_Polygon L local_coords = Some polygon
        \<and> lib_is_valid L polygon \<and> min_area_threshold quality \<le> lib_area L polygon
        \<and> lib_simplify L polygon (simplification_tolerance quality)
              = Some (SimplifiedPolygon [p0, p1, p2, p3, p4])
      \<longrightarrow> (\<exists>doc. export_obj_lines L (west, south, east, north) [e] building_height quality = Inr doc
             \<and> length (vertices_of doc) = 4 + 8
             \<and> vertices_of doc =
                 vertices_of (fst (create_perfect_ground_plane (west, south, east, north) ''perfect_map.png''))
                 @ [(fst p0, snd p0, 0), (fst p0, snd p0, height_of_tags L (el_tags e) building_height),
                    (fst p1, snd p1, 0), (fst p1, snd p1, height_of_tags L (el_tags e) building_height),
                    (fst p2, snd p2, 0), (fst p2, snd p2, height_of_tags L (el_tags e) building_height),
                    (fst p3, snd p3, 0), (fst p3, snd p3, height_of_tags L (el_tags e) building_height)]
             \<and> faces_of doc =
                 [[(1, Some 1), (2, Some 2), (3, Some 3)], [(1, Some 1), (3, Some 3), (4, Some 4)],
                  [(11, None), (9, None), (7, None), (5, None)],
                  [(6, None), (8, None), (10, None), (12, None)],
                  [(5, None), (7, None), (8, None), (6, None)],
                  [(7, None), (9, None), (10, None), (8, None)],
                  [(9, None), (11, None), (12, None), (10, None)],
                  [(11, None), (5, None), (6, None), (12, None)]]))"
proof (intro conjI impI)
  show "emit_building simplified_coords height (obj_lines, vertex_count, building_count) =
     (obj_lines
        @ concat (map (\<lambda>(x, y). [Vertex x y 0, Vertex x y height]) simplified_coords)
        @ [GroupBuilding (building_count + 1),
           UseMtl ''building_material'',
           Face (map (\<lambda>i. (vertex_count + 2 * i + 1, None)) (rev [0..<length simplified_coords])),
           Face (map (\<lambda>i. (vertex_count + 2 * i + 2, None)) [0..<length simplified_coords])]
        @ map (\<lambda>i. Face [(vertex_count + 2 * i + 1, None),
                         (vertex_count + 2 * ((i + 1) mod length simplified_coords) + 1, None),
                         (vertex_count + 2 * ((i + 1) mod length simplified_coords) + 2, None),
                         (vertex_count + 2 * i + 2, None)]) [0..<length simplified_coords],
      vertex_count + 2 * length simplified_coords,
      building_count + 1)"
    unfolding emit_building_closed ring_vertices_def ..
next
  let ?h = "height_of_tags L (el_tags e) building_height"
  let ?g = "fst (create_perfect_ground_plane (west, south, east, north) ''perfect_map.png'')"
  assume a: "truthy (el_tags e ''building'') \<and> el_geometry e = Some nds
        \<and> node_coords nds = Inr coords \<and> 4 \<le> length coords
        \<and> project_coords (if hd coords = last coords then butlast coords else coords)
              ((south + north) / 2) ((west + east) / 2) = Inr local_coords
        \<and> lib_Polygon L local_coords = Some polygon
        \<and> lib_is_valid L polygon \<and> min_area_threshold quality \<le> lib_area L polygon
        \<and> lib_simplify L polygon (simplification_tolerance quality)
              = Some (SimplifiedPolygon [p0, p1, p2, p3, p4])"
  have "create_building_geometry L [e] ((south + north) / 2) ((west + east) / 2) building_height quality =
          Inr (emit_building (butlast [p0, p1, p2, p3, p4]) ?h
                 ([Comment ''Buildings positioned on perfect ground''], 4, 0))"
  proof (rule one_accepted_building)
    show "truthy (el_tags e ''building'')" "el_geometry e = Some nds"
      "node_coords nds = Inr coords" "4 \<le> length coords"
      "project_coords (if hd coords = last coords then butlast coords else coords)
         ((south + north) / 2) ((west + east) / 2) = Inr local_coords"
      "lib_Polygon L local_coords = Some polygon"
      "lib_is_valid L polygon" "min_area_threshold quality \<le> lib_area L polygon"
      "lib_simplify L polygon (simplification_tolerance quality)
         = Some (SimplifiedPolygon [p0, p1, p2, p3, p4])"
      using a by blast+
  qed simp
  then have "create_building_geometry L (filter (\<lambda>e. truthy (el_tags e ''building'')) [e])
               ((south + north) / 2) ((west + east) / 2) building_height quality =
          Inr (emit_building [p0, p1, p2, p3] ?h
                 ([Comment ''Buildings positioned on perfect ground''], 4, 0))"
    using a by simp
  note doc = export_obj_lines_eq[OF this[unfolded emit_four]]
  show "\<exists>doc. export_obj_lines L (west, south, east, north) [e] building_height quality = Inr doc
             \<and> length (vertices_of doc) = 4 + 8
             \<and> vertices_of doc = vertices_of ?g
                 @ [(fst p0, snd p0, 0), (fst p0, snd p0, ?h),
                    (fst p1, snd p1, 0), (fst p1, snd p1, ?h),
                    (fst p2, snd p2, 0), (fst p2, snd p2, ?h),
                    (fst p3, snd p3, 0), (fst p3, snd p3, ?h)]
             \<and> faces_of doc =
                 [[(1, Some 1), (2, Some 2), (3, Some 3)], [(1, Some 1), (3, Some 3), (4, Some 4)],
                  [(11, None), (9, None), (7, None), (5, None)],
                  [(6, None), (8, None), (10, None), (12, None)],
                  [(5, None), (7, None), (8, None), (6, None)],
                  [(7, None), (9, None), (10, None), (8, None)],
                  [(9, None), (11, None), (12, None), (10, None)],
                  [(11, None), (5, None), (6, None), (12, None)]]"
    unfolding doc
    by (simp add: vertices_of_append faces_of_append faces_of_ground length_vertices_of_ground)
qed

theorem extrusion_emission_witness:
  "\<exists>doc. export_obj_lines plain_library (- 0.001, - 0.001, 0.001, 0.001) [sample_footprint] 10 ''medium'' = Inr doc
     \<and> length (vertices_of doc) = 12
     \<and> drop 4 (vertices_of doc) =
         [(0, 0, 0), (0, 0, 9), (sample_side, 0, 0), (sample_side, 0, 9),
          (sample_side, sample_side, 0), (sample_side, sample_side, 9),
          (0, sample_side, 0), (0, sample_side, 9)]
     \<and> length (faces_of doc) = 8"
proof -
  have p: "project_coords
      (if hd [(JNum 0, JNum 0), (JNum 0.0005, JNum 0), (JNum 0.0005, JNum 0.0005),
              (JNum 0, JNum 0.0005), (JNum 0, JNum 0)]
          = last [(JNum 0, JNum 0), (JNum 0.0005, JNum 0), (JNum 0.0005, JNum 0.0005),
              (JNum 0, JNum 0.0005), (JNum 0, JNum 0)]
       then butlast [(JNum 0, JNum 0), (JNum 0.0005, JNum 0), (JNum 0.0005, JNum 0.0005),
              (JNum 0, JNum 0.0005), (JNum 0, JNum 0)]
       else [(JNum 0, JNum 0), (JNum 0.0005, JNum 0), (JNum 0.0005, JNum 0.0005),
              (JNum 0, JNum 0.0005), (JNum 0, JNum 0)])
      ((- 0.001 + 0.001) / 2) ((- 0.001 + 0.001) / 2) = Inr sample_ring"
    using sample_project by simp
  have "\<exists>doc. export_obj_lines plain_library (- 0.001, - 0.001, 0.001, 0.001) [sample_footprint] 10 ''medium'' = Inr doc
     \<and> length (vertices_of doc) = 4 + 8
     \<and> vertices_of doc =
         vertices_of (fst (create_perfect_ground_plane (- 0.001, - 0.001, 0.001, 0.001) ''perfect_map.png''))
         @ [(0, 0, 0), (0, 0, 9), (sample_side, 0, 0), (sample_side, 0, 9),
            (sample_side, sample_side, 0), (sample_side, sample_side, 9),
            (0, sample_side, 0), (0, sample_side, 9)]
     \<and> faces_of doc =
                 [[(1, Some 1), (2, Some 2), (3, Some 3)], [(1, Some 1), (3, Some 3), (4, Some 4)],
                  [(11, None), (9, None), (7, None), (5, None)],
                  [(6, None), (8, None), (10, None), (12, None)],
                  [(5, None), (7, None), (8, None), (6, None)],
                  [(7, None), (9, None), (10, None), (8, None)],
                  [(9, None), (11, None), (12, None), (10, None)],
                  [(11, None), (5, None), (6, None), (12, None)]]"
    using extrusion_emission[where e = sample_footprint and L = plain_library
        and west = "- 0.001" and south = "- 0.001" and east = "0.001" and north = "0.001"
        and quality = "''medium''" and building_height = 10
        and nds = "the (el_geometry sample_footprint)"
        and coords = "[(JNum 0, JNum 0), (JNum 0.0005, JNum 0), (JNum 0.0005, JNum 0.0005),
              (JNum 0, JNum 0.0005), (JNum 0, JNum 0)]"
        and local_coords = sample_ring and polygon = sample_ring
        and ?p0.0 = "(0, 0)" and ?p1.0 = "(sample_side, 0)" and ?p2.0 = "(sample_side, sample_side)"
        and ?p3.0 = "(0, sample_side)" and ?p4.0 = "(0, 0)", THEN conjunct2, THEN mp]
      p sample_accept sample_valid sample_node_coords sample_height
    by simp
  then obtain doc where
    d: "export_obj_lines plain_library (- 0.001, - 0.001, 0.001, 0.001) [sample_footprint] 10 ''medium'' = Inr doc"
      "length (vertices_of doc) = 4 + 8"
      "vertices_of doc =
         vertices_of (fst (create_perfect_ground_plane (- 0.001, - 0.001, 0.001, 0.001) ''perfect_map.png''))
         @ [(0, 0, 0), (0, 0, 9), (sample_side, 0, 0), (sample_side, 0, 9),
            (sample_side, sample_side, 0), (sample_side, sample_side, 9),
            (0, sample_side, 0), (0, sample_side, 9)]"
      "length (faces_of doc) = 8"
    by auto
  have "drop 4 (vertices_of doc) =
         [(0, 0, 0), (0, 0, 9), (sample_side, 0, 0), (sample_side, 0, 9),
          (sample_side, sample_side, 0), (sample_side, sample_side, 9),
          (0, sample_side, 0), (0, sample_side, 9)]"
    unfolding d(3) by (simp add: length_vertices_of_ground)
  with d show ?thesis by simp
qed

subsection \<open>Validity of the face indices\<close>

text \<open>
  C6. When the building geometry is produced, the returned vertex count is 4 plus the
  number of vertex lines among the building lines, and every face of the building lines
  names only vertices between 1 and the number of vertex lines that precede it, counting
  the 4 ground vertices; in the whole document, ground plane first, every face names only
  vertices defined by earlier lines. Each element either leaves the builder as it was or
  emits one building for a ring of \<open>n \<ge> 3\<close> points, which raises the counter by
  \<open>2 n\<close>; the counter never decreases.
\<close>

theorem mesh_index_validity:
  "(create_building_geometry L elements origin_lat origin_lon building_height quality
      = Inr (building_lines, total_vertices, building_count)
    \<longrightarrow> total_vertices = 4 + length (vertices_of building_lines)
        \<and> indices_valid 4 building_lines)
   \<and> (export_obj_lines L b elements building_height quality = Inr doc
    \<longrightarrow> indices_valid 0 doc)
   \<and> (process_element L origin_lat origin_lon building_height tolerance threshold
         (obj_lines, vertex_count, count) e = Inr (obj_lines', vertex_count', count')
    \<longrightarrow> (obj_lines', vertex_count', count') = (obj_lines, vertex_count, count)
        \<or> (\<exists>sc h. 3 \<le> length sc
              \<and> (obj_lines', vertex_count', count') = emit_building sc h (obj_lines, vertex_count, count)
              \<and> vertex_count' = vertex_count + 2 * length sc))"
proof (intro conjI impI)
  assume "create_building_geometry L elements origin_lat origin_lon building_height quality
      = Inr (building_lines, total_vertices, building_count)"
  then have "total_vertices = 4 + length (vertices_of building_lines) \<and> indices_valid 4 building_lines
      \<and> 4 \<le> total_vertices"
    unfolding create_building_geometry_def by (rule element_loop_invariant) simp_all
  then show "total_vertices = 4 + length (vertices_of building_lines)"
    and "indices_valid 4 building_lines" by simp_all
next
  assume d: "export_obj_lines L b elements building_height quality = Inr doc"
  obtain west south east north where b: "b = (west, south, east, north)" by (cases b)
  let ?els = "filter (\<lambda>e. truthy (el_tags e ''building'')) elements"
  from d obtain ls vc bc where
    g: "create_building_geometry L ?els ((south + north) / 2) ((west + east) / 2)
          building_height quality = Inr (ls, vc, bc)"
    unfolding b by (auto simp add: export_obj_lines_def Let_def split_beta split: sum.splits)
  then have "indices_valid 4 ls"
    unfolding create_building_geometry_def
    using element_loop_invariant[where ?k0.0 = 4] by fastforce
  moreover have "doc = [Comment ''Perfect Aligned 3D Map'',
                 CommentBbox (west, south, east, north),
                 CommentOrigin ((south + north) / 2) ((west + east) / 2),
                 Blank, MtlLib ''perfect_materials.mtl'', Blank]
                @ fst (create_perfect_ground_plane (west, south, east, north) ''perfect_map.png'')
                @ ls"
    using d export_obj_lines_eq[OF g] unfolding b by simp
  ultimately show "indices_valid 0 doc"
    by (simp add: indices_valid_append indices_valid_ground length_vertices_of_ground)
next
  assume "process_element L origin_lat origin_lon building_height tolerance threshold
         (obj_lines, vertex_count, count) e = Inr (obj_lines', vertex_count', count')"
  from process_element_cases[OF this]
  show "(obj_lines', vertex_count', count') = (obj_lines, vertex_count, count)
        \<or> (\<exists>sc h. 3 \<le> length sc
              \<and> (obj_lines', vertex_count', count') = emit_building sc h (obj_lines, vertex_count, count)
              \<and> vertex_count' = vertex_count + 2 * length sc)"
    by (auto simp add: emit_building_closed)
qed

theorem mesh_index_validity_witness:
  "create_building_geometry plain_library [sample_footprint] 0 0 10 ''medium''
     = Inr (sample_lines, 12, 1)
   \<and> 12 = 4 + length (vertices_of sample_lines)
   \<and> indices_valid 4 sample_lines
   \<and> indices_valid 0
       ([Comment ''Perfect Aligned 3D Map'', CommentBbox sample_bbox, CommentOrigin 0 0,
         Blank, MtlLib ''perfect_materials.mtl'', Blank]
        @ fst (create_perfect_ground_plane sample_bbox ''perfect_map.png'')
        @ sample_lines)"
proof -
  have g: "create_building_geometry plain_library [sample_footprint] 0 0 10 ''medium''
     = Inr (sample_lines, 12, 1)"
    using sample_building_geometry by (simp add: sample_lines_def)
  note t = mesh_index_validity[where L = plain_library and elements = "[sample_footprint]"
      and origin_lat = 0 and origin_lon = 0 and building_height = 10 and quality = "''medium''"
      and building_lines = sample_lines and total_vertices = 12 and building_count = 1
      and b = sample_bbox
      and doc = "[Comment ''Perfect Aligned 3D Map'', CommentBbox sample_bbox, CommentOrigin 0 0,
                  Blank, MtlLib ''perfect_materials.mtl'', Blank]
                 @ fst (create_perfect_ground_plane sample_bbox ''perfect_map.png'')
                 @ sample_lines"
      and tolerance = "simplification_tolerance ''medium''"
      and threshold = "min_area_threshold ''medium''"
      and obj_lines = "[Comment ''Buildings positioned on perfect ground'']"
      and vertex_count = 4 and count = 0 and e = sample_footprint
      and obj_lines' = sample_lines and vertex_count' = 12 and count' = 1]
  from t g sample_export sample_process_element show ?thesis by blast
qed

subsection \<open>More sample footprints\<close>

lemma sample_side_pos: "0 < sample_side"
  using sample_side_ge by linarith

lemma short_node_coords:
  "node_coords (the (el_geometry short_footprint)) =
     Inr [(JNum 0, JNum 0), (JNum 0.0005, JNum 0), (JNum 0, JNum 0)]"
  by (simp add: short_footprint_def node_coord_def)

lemma flat_node_coords:
  "node_coords (the (el_geometry flat_footprint)) =
     Inr [(JNum 0, JNum 0), (JNum 0.0005, JNum 0), (JNum 0.001, JNum 0), (JNum 0, JNum 0)]"
  by (simp add: flat_footprint_def node_coord_def)

lemma triangle_node_coords:
  "node_coords (the (el_geometry triangle_footprint)) =
     Inr [(JNum 0, JNum 0), (JNum 0.0005, JNum 0), (JNum 0.0005, JNum 0.0005), (JNum 0, JNum 0)]"
  by (simp add: triangle_footprint_def node_coord_def)

lemma unprojectable_node_coords:
  "node_coords (the (el_geometry unprojectable_footprint)) =
     Inr [(JNum 0, JNum 0), (JNum 0.0005, JNull), (JNum 0.0005, JNum 0.0005),
          (JNum 0, JNum 0.0005), (JNum 0, JNum 0)]"
  by (simp add: unprojectable_footprint_def node_coord_def)

lemma flat_project:
  "project_coords [(JNum 0, JNum 0), (JNum 0.0005, JNum 0), (JNum 0.001, JNum 0)] 0 0
     = Inr [(0, 0), (sample_side, 0), (2 * sample_side, 0)]"
  by (simp add: lat_lon_to_meters_origin_0 sample_side_def radians_def)

lemma triangle_project:
  "project_coords [(JNum 0, JNum 0), (JNum 0.0005, JNum 0), (JNum 0.0005, JNum 0.0005)] 0 0
     = Inr [(0, 0), (sample_side, 0), (sample_side, sample_side)]"
  by (simp add: lat_lon_to_meters_origin_0 sample_side_def radians_def)

lemma unprojectable_project:
  "project_coords [(JNum 0, JNum 0), (JNum 0.0005, JNull), (JNum 0.0005, JNum 0.0005),
          (JNum 0, JNum 0.0005)] 0 0 = Inl TypeError"
  by simp

lemma flat_invalid:
  "\<not> lib_is_valid plain_library [(0, 0), (sample_side, 0), (2 * sample_side, 0)]"
  by (simp add: plain_library_def shoelace_area_def)

lemma triangle_area:
  "shoelace_area [(0, 0), (sample_side, 0), (sample_side, sample_side)] = sample_side * sample_side / 2"
  using sample_side_pos by (simp add: shoelace_area_def)

lemma triangle_area_gt: "5 < shoelace_area [(0, 0), (sample_side, 0), (sample_side, sample_side)]"
proof -
  have "35 * 35 \<le> sample_side * sample_side"
    using sample_side_ge by (intro mult_mono) simp_all
  then show ?thesis unfolding triangle_area by linarith
qed

lemma triangle_valid:
  "lib_is_valid plain_library [(0, 0), (sample_side, 0), (sample_side, sample_side)]"
proof -
  have "sample_side \<noteq> 0" using sample_side_pos by simp
  then have "distinct [(0 :: real, 0 :: real), (sample_side, 0), (sample_side, sample_side)]" by simp
  moreover have "0 < shoelace_area [(0, 0), (sample_side, 0), (sample_side, sample_side)]"
    using triangle_area_gt by linarith
  ultimately show ?thesis by (simp add: plain_library_def)
qed

lemma plain_polygon:
  "lib_Polygon plain_library [p, q, r] = Some [p, q, r]"
  "lib_area plain_library = shoelace_area"
  "lib_simplify plain_library [p, q, r] tolerance = Some (SimplifiedPolygon [p, q, r, p])"
  by (simp_all add: plain_library_def)

lemma malformed_node_coords: "node_coords (the (el_geometry malformed_footprint)) = Inl KeyError"
  by (simp add: malformed_footprint_def node_coord_def)

lemma try_block_raises:
  assumes "(\<exists>err. project_coords coords origin_lat origin_lon = Inl err)
     \<or> (\<exists>local_coords. project_coords coords origin_lat origin_lon = Inr local_coords
          \<and> (lib_Polygon L local_coords = None
              \<or> (\<exists>polygon. lib_Polygon L local_coords = Some polygon
                    \<and> lib_is_valid L polygon \<and> threshold \<le> lib_area L polygon
                    \<and> lib_simplify L polygon tolerance = None)))"
  shows "try_block L origin_lat origin_lon building_height tolerance threshold tgs coords st = Inl Raised"
  using assms
  by (auto simp add: try_block_def simplify_and_emit_def split: sum.splits option.splits)

subsection \<open>Rejection of footprints\<close>

text \<open>
  C8. A footprint with fewer than 4 raw vertices is rejected, and so on. As stated this
  fails: the code reads \<open>lon\<close> and \<open>lat\<close> of every node before it counts the nodes, so
  a footprint of three nodes, one without its latitude, is not rejected but raises a
  \<open>KeyError\<close> that leaves the function. Amended: for a footprint element with a tag
  dictionary and a geometry whose nodes all carry both keys, a geometry of fewer than 4
  nodes, or of fewer than 3 after dropping a last node equal to the first, leaves the
  builder unchanged; so does a footprint whose projected polygon is invalid or has an
  area strictly below the threshold of the quality, which is 25, 10 and 5 square metres
  for low, medium and high. Such a footprint of four nodes, the last equal to the first,
  whose polygon is valid with an area above 5 passes these checks at quality high: its
  processing is the simplification and emission step, and when the simplified polygon
  keeps at least 3 points the building is emitted.
\<close>

theorem footprint_rejection:
  "(el_geometry e = Some nds \<and> node_coords nds = Inr coords
      \<and> (length coords < 4
          \<or> length (if hd coords = last coords then butlast coords else coords) < 3)
    \<longrightarrow> process_element L origin_lat origin_lon building_height tolerance threshold st e = Inr st)
   \<and> (el_geometry e = Some nds \<and> node_coords nds = Inr coords
      \<and> project_coords (if hd coords = last coords then butlast coords else coords)
            origin_lat origin_lon = Inr local_coords
      \<and> lib_Polygon L local_coords = Some polygon
      \<and> (\<not> lib_is_valid L polygon \<or> lib_area L polygon < min_area_threshold quality)
    \<longrightarrow> process_element L origin_lat origin_lon building_height tolerance
          (min_area_threshold quality) st e = Inr st)
   \<and> min_area_threshold ''low'' = 25
   \<and> min_area_threshold ''medium'' = 10
   \<and> min_area_threshold ''high'' = 5
   \<and> (truthy (el_tags e ''building'') \<and> el_geometry e = Some nds
      \<and> node_coords nds = Inr coords \<and> length coords = 4 \<and> hd coords = last coords
      \<and> project_coords (butlast coords) origin_lat origin_lon = Inr local_coords
      \<and> lib_Polygon L local_coords = Some polygon
      \<and> lib_is_valid L polygon \<and> 5 < lib_area L polygon
    \<longrightarrow> process_element L origin_lat origin_lon building_height tolerance
          (min_area_threshold ''high'') st e
          = (case simplify_and_emit L tolerance building_height (el_tags e) local_coords polygon st of
               Inl Raised \<Rightarrow> Inr st
             | Inr st' \<Rightarrow> Inr st')
        \<and> (lib_simplify L polygon tolerance = Some (SimplifiedPolygon exterior)
              \<and> 3 \<le> length (butlast exterior)
            \<longrightarrow> process_element L origin_lat origin_lon building_height tolerance
                  (min_area_threshold ''high'') st e
                = Inr (emit_building (butlast exterior)
                         (height_of_tags L (el_tags e) building_height) st)))"
proof (intro conjI impI)
  assume s: "el_geometry e = Some nds \<and> node_coords nds = Inr coords
      \<and> (length coords < 4
          \<or> length (if hd coords = last coords then butlast coords else coords) < 3)"
  show "process_element L origin_lat origin_lon building_height tolerance threshold st e = Inr st"
  proof (rule process_element_rejected_short)
    show "el_geometry e = Some nds" "node_coords nds = Inr coords"
      "length coords < 4
         \<or> length (if hd coords = last coords then butlast coords else coords) < 3"
      using s by blast+
  qed
next
  assume b: "el_geometry e = Some nds \<and> node_coords nds = Inr coords
      \<and> project_coords (if hd coords = last coords then butlast coords else coords)
            origin_lat origin_lon = Inr local_coords
      \<and> lib_Polygon L local_coords = Some polygon
      \<and> (\<not> lib_is_valid L polygon \<or> lib_area L polygon < min_area_threshold quality)"
  show "process_element L origin_lat origin_lon building_height tolerance
          (min_area_threshold quality) st e = Inr st"
  proof (rule process_element_rejected_polygon)
    show "el_geometry e = Some nds" "node_coords nds = Inr coords"
      "project_coords (if hd coords = last coords then butlast coords else coords)
         origin_lat origin_lon = Inr local_coords"
      "lib_Polygon L local_coords = Some polygon"
      "\<not> lib_is_valid L polygon \<or> lib_area L polygon < min_area_threshold quality"
      using b by blast+
  qed
next
  show "min_area_threshold ''low'' = 25" "min_area_threshold ''medium'' = 10"
    "min_area_threshold ''high'' = 5"
    by (simp_all add: min_area_threshold_def)
next
  assume a: "truthy (el_tags e ''building'') \<and> el_geometry e = Some nds
      \<and> node_coords nds = Inr coords \<and> length coords = 4 \<and> hd coords = last coords
      \<and> project_coords (butlast coords) origin_lat origin_lon = Inr local_coords
      \<and> lib_Polygon L local_coords = Some polygon
      \<and> lib_is_valid L polygon \<and> 5 < lib_area L polygon"
  have k: "process_element L origin_lat origin_lon building_height tolerance
          (min_area_threshold ''high'') st e
          = (case simplify_and_emit L tolerance building_height (el_tags e) local_coords polygon st of
               Inl Raised \<Rightarrow> Inr st
             | Inr st' \<Rightarrow> Inr st')"
  proof (rule process_element_accepted)
    show "truthy (el_tags e ''building'')" "el_geometry e = Some nds"
      "node_coords nds = Inr coords" "lib_Polygon L local_coords = Some polygon"
      "lib_is_valid L polygon"
      using a by blast+
    show "4 \<le> length coords" using a by simp
    show "project_coords (if hd coords = last coords then butlast coords else coords)
            origin_lat origin_lon = Inr local_coords"
      using a by simp
    show "min_area_threshold ''high'' \<le> lib_area L polygon"
      using a by (simp add: min_area_threshold_def)
  qed
  show "process_element L origin_lat origin_lon building_height tolerance
          (min_area_threshold ''high'') st e
          = (case simplify_and_emit L tolerance building_height (el_tags e) local_coords polygon st of
               Inl Raised \<Rightarrow> Inr st
             | Inr st' \<Rightarrow> Inr st')"
    by (rule k)
  assume "lib_simplify L polygon tolerance = Some (SimplifiedPolygon exterior)
              \<and> 3 \<le> length (butlast exterior)"
  then show "process_element L origin_lat origin_lon building_height tolerance
                  (min_area_threshold ''high'') st e
                = Inr (emit_building (butlast exterior)
                         (height_of_tags L (el_tags e) building_height) st)"
    unfolding k by (simp add: simplify_and_emit_polygon)
qed

theorem footprint_rejection_witness:
  "process_element plain_library 0 0 10 0.3 (min_area_threshold ''high'')
     ([Comment ''Buildings positioned on perfect ground''], 4, 0) short_footprint
     = Inr ([Comment ''Buildings positioned on perfect ground''], 4, 0)
   \<and> process_element plain_library 0 0 10 0.3 (min_area_threshold ''high'')
     ([Comment ''Buildings positioned on perfect ground''], 4, 0) flat_footprint
     = Inr ([Comment ''Buildings positioned on perfect ground''], 4, 0)
   \<and> process_element plain_library 0 0 10 0.3 (min_area_threshold ''high'')
     ([Comment ''Buildings positioned on perfect ground''], 4, 0) triangle_footprint
     = Inr (emit_building [(0, 0), (sample_side, 0), (sample_side, sample_side)] 10
              ([Comment ''Buildings positioned on perfect ground''], 4, 0))"
proof -
  let ?st = "([Comment ''Buildings positioned on perfect ground''], 4 :: nat, 0 :: nat)"
  have g: "el_geometry short_footprint = Some (the (el_geometry short_footprint))"
    "el_geometry flat_footprint = Some (the (el_geometry flat_footprint))"
    "el_geometry triangle_footprint = Some (the (el_geometry triangle_footprint))"
    by (simp_all add: short_footprint_def flat_footprint_def triangle_footprint_def)
  have 1: "process_element plain_library 0 0 10 0.3 (min_area_threshold ''high'') ?st short_footprint
             = Inr ?st"
    using footprint_rejection[where e = short_footprint and L = plain_library
        and nds = "the (el_geometry short_footprint)"
        and coords = "[(JNum 0, JNum 0), (JNum 0.0005, JNum 0), (JNum 0, JNum 0)]"
        and origin_lat = 0 and origin_lon = 0 and building_height = 10 and tolerance = "0.3"
        and threshold = "min_area_threshold ''high''" and st = ?st, THEN conjunct1]
      g short_node_coords
    by simp
  have 2: "process_element plain_library 0 0 10 0.3 (min_area_threshold ''high'') ?st flat_footprint
             = Inr ?st"
    using footprint_rejection[where e = flat_footprint and L = plain_library
        and nds = "the (el_geometry flat_footprint)"
        and coords = "[(JNum 0, JNum 0), (JNum 0.0005, JNum 0), (JNum 0.001, JNum 0), (JNum 0, JNum 0)]"
        and local_coords = "[(0, 0), (sample_side, 0), (2 * sample_side, 0)]"
        and polygon = "[(0, 0), (sample_side, 0), (2 * sample_side, 0)]"
        and quality = "''high''"
        and origin_lat = 0 and origin_lon = 0 and building_height = 10 and tolerance = "0.3"
        and st = ?st, THEN conjunct2, THEN conjunct1]
      g flat_node_coords flat_project flat_invalid plain_polygon
    by simp
  have t: "truthy (el_tags triangle_footprint ''building'')"
    by (simp add: truthy_def triangle_footprint_def)
  have h: "height_of_tags plain_library (el_tags triangle_footprint) 10 = 10"
    by (simp add: height_of_tags_def triangle_footprint_def)
  note k = footprint_rejection[where e = triangle_footprint and L = plain_library
        and nds = "the (el_geometry triangle_footprint)"
        and coords = "[(JNum 0, JNum 0), (JNum 0.0005, JNum 0), (JNum 0.0005, JNum 0.0005), (JNum 0, JNum 0)]"
        and local_coords = "[(0, 0), (sample_side, 0), (sample_side, sample_side)]"
        and polygon = "[(0, 0), (sample_side, 0), (sample_side, sample_side)]"
        and exterior = "[(0, 0), (sample_side, 0), (sample_side, sample_side), (0, 0)]"
        and origin_lat = 0 and origin_lon = 0 and building_height = 10 and tolerance = "0.3"
        and st = ?st, THEN conjunct2, THEN conjunct2, THEN conjunct2, THEN conjunct2, THEN conjunct2]
  have c: "truthy (el_tags triangle_footprint ''building'')
      \<and> el_geometry triangle_footprint = Some (the (el_geometry triangle_footprint))
      \<and> node_coords (the (el_geometry triangle_footprint))
          = Inr [(JNum 0, JNum 0), (JNum 0.0005, JNum 0), (JNum 0.0005, JNum 0.0005), (JNum 0, JNum 0)]
      \<and> length [(JNum 0, JNum 0), (JNum 0.0005, JNum 0), (JNum 0.0005, JNum 0.0005), (JNum 0, JNum 0)] = 4
      \<and> hd [(JNum 0, JNum 0), (JNum 0.0005, JNum 0), (JNum 0.0005, JNum 0.0005), (JNum 0, JNum 0)]
          = last [(JNum 0, JNum 0), (JNum 0.0005, JNum 0), (JNum 0.0005, JNum 0.0005), (JNum 0, JNum 0)]
      \<and> project_coords
            (butlast [(JNum 0, JNum 0), (JNum 0.0005, JNum 0), (JNum 0.0005, JNum 0.0005), (JNum 0, JNum 0)])
            0 0 = Inr [(0, 0), (sample_side, 0), (sample_side, sample_side)]
      \<and> lib_Polygon plain_library [(0, 0), (sample_side, 0), (sample_side, sample_side)]
          = Some [(0, 0), (sample_side, 0), (sample_side, sample_side)]
      \<and> lib_is_valid plain_library [(0, 0), (sample_side, 0), (sample_side, sample_side)]
      \<and> 5 < lib_area plain_library [(0, 0), (sample_side, 0), (sample_side, sample_side)]"
    using g t triangle_node_coords triangle_project triangle_valid triangle_area_gt plain_polygon
    by simp
  have d: "lib_simplify plain_library [(0, 0), (sample_side, 0), (sample_side, sample_side)] 0.3
             = Some (SimplifiedPolygon [(0, 0), (sample_side, 0), (sample_side, sample_side), (0, 0)])
      \<and> 3 \<le> length (butlast [(0, 0), (sample_side, 0), (sample_side, sample_side), (0 :: real, 0 :: real)])"
    using plain_polygon by simp
  from k[THEN mp, OF c, THEN conjunct2, THEN mp, OF d]
  have 3: "process_element plain_library 0 0 10 0.3 (min_area_threshold ''high'') ?st triangle_footprint
             = Inr (emit_building [(0, 0), (sample_side, 0), (sample_side, sample_side)] 10 ?st)"
    using h by simp
  from 1 2 3 show ?thesis by simp
qed

theorem footprint_rejection_counterexample:
  "map_option length (el_geometry keyless_footprint) = Some 3
   \<and> process_element plain_library 0 0 10 0.3 (min_area_threshold ''high'')
       ([Comment ''Buildings positioned on perfect ground''], 4, 0) keyless_footprint
     = Inl KeyError"
  by (simp add: process_element_def truthy_def keyless_footprint_def node_coord_def)

subsection \<open>Containment of exceptions\<close>

lemma raised_footprint_skipped:
  assumes "el_geometry e = Some nds" "node_coords nds = Inr coords"
    and "project_coords (if hd coords = last coords then butlast coords else coords)
           origin_lat origin_lon = Inl err"
  shows "create_building_geometry L (before @ e # after) origin_lat origin_lon
            building_height quality
         = create_building_geometry L (before @ after) origin_lat origin_lon
            building_height quality"
proof -
  let ?ring = "if hd coords = last coords then butlast coords else coords"
  have r: "try_block L origin_lat origin_lon building_height (simplification_tolerance quality)
             (min_area_threshold quality) (el_tags e) ?ring st = Inl Raised" for st
    by (rule try_block_raises) (use assms(3) in blast)
  have "process_element L origin_lat origin_lon building_height (simplification_tolerance quality)
          (min_area_threshold quality) st e = Inr st" for st
    using assms(1,2) r by (rule process_element_raised)
  then show ?thesis
    unfolding create_building_geometry_def by (rule element_loop_skip)
qed

text \<open>
  C9. An exception raised while one footprint is processed is caught, that footprint is
  skipped and the others are emitted. The code breaks this for a geometry node without
  its \<open>lat\<close> key: the coordinates are read one statement before the \<^verbatim>\<open>try\<close> block, so
  the \<open>KeyError\<close> leaves the function and the good footprint after it is lost. A node
  whose \<open>lat\<close> is not a number raises inside the block: that footprint is skipped and the
  good one is emitted, the same result as for the good footprint alone.
\<close>

theorem exception_containment_failing_input:
  "create_building_geometry plain_library [malformed_footprint, sample_footprint] 0 0 10 ''medium''
     = Inl KeyError
   \<and> create_building_geometry plain_library [unprojectable_footprint, sample_footprint] 0 0 10 ''medium''
     = Inr (sample_lines, 12, 1)
   \<and> create_building_geometry plain_library [sample_footprint] 0 0 10 ''medium''
     = Inr (sample_lines, 12, 1)"
proof -
  have "process_element plain_library 0 0 10 (simplification_tolerance ''medium'')
          (min_area_threshold ''medium'') st malformed_footprint = Inl KeyError" for st
    using malformed_node_coords
    by (simp add: process_element_def truthy_def malformed_footprint_def)
  then have 1: "create_building_geometry plain_library [malformed_footprint, sample_footprint]
               0 0 10 ''medium'' = Inl KeyError"
    by (simp add: create_building_geometry_def)
  have 3: "create_building_geometry plain_library [sample_footprint] 0 0 10 ''medium''
     = Inr (sample_lines, 12, 1)"
    using sample_building_geometry by (simp add: sample_lines_def)
  have g: "el_geometry unprojectable_footprint = Some (the (el_geometry unprojectable_footprint))"
    by (simp add: unprojectable_footprint_def)
  have p: "project_coords
      (if hd [(JNum 0, JNum 0), (JNum 0.0005, JNull), (JNum 0.0005, JNum 0.0005),
              (JNum 0, JNum 0.0005), (JNum 0, JNum 0)]
          = last [(JNum 0, JNum 0), (JNum 0.0005, JNull), (JNum 0.0005, JNum 0.0005),
              (JNum 0, JNum 0.0005), (JNum 0, JNum 0)]
       then butlast [(JNum 0, JNum 0), (JNum 0.0005, JNull), (JNum 0.0005, JNum 0.0005),
              (JNum 0, JNum 0.0005), (JNum 0, JNum 0)]
       else [(JNum 0, JNum 0), (JNum 0.0005, JNull), (JNum 0.0005, JNum 0.0005),
              (JNum 0, JNum 0.0005), (JNum 0, JNum 0)]) 0 0 = Inl TypeError"
    by simp
  have "create_building_geometry plain_library ([] @ unprojectable_footprint # [sample_footprint])
          0 0 10 ''medium''
        = create_building_geometry plain_library ([] @ [sample_footprint]) 0 0 10 ''medium''"
    using g unprojectable_node_coords p by (rule raised_footprint_skipped)
  then have 2: "create_building_geometry plain_library [unprojectable_footprint, sample_footprint]
               0 0 10 ''medium'' = Inr (sample_lines, 12, 1)"
    using 3 by simp
  from 1 2 3 show ?thesis by simp
qed


end
